theory Spec2Isabelle
  imports Complex_Main "HOL-Library.Word" "HOL-Library.Multiset"
begin

unbundle bit_operations_syntax

section \<open>HyperLogLog sketches of hll.c\<close>

text \<open>
  A shallow embedding of the sketch core of \<^verbatim>\<open>src/hll.c\<close>: the in-memory
  \<^verbatim>\<open>multiset_t\<close>, the bit stream codec, the version 1 wire format, insertion,
  union, the cardinality estimator and the byte-wise comparison operators.

  Conventions of the embedding.
  \<^item> \<^verbatim>\<open>size_t\<close> values are natural numbers; where the C expression can wrap around
    (\<^verbatim>\<open>nbits - 1\<close>, \<^verbatim>\<open>i_size - hdrsz\<close>) the wrap-around modulo \<open>2 ^ 64\<close> is written out.
  \<^item> \<^verbatim>\<open>uint64_t\<close> tokens, \<^verbatim>\<open>uint8_t\<close> bytes and registers are machine words.
  \<^item> \<^verbatim>\<open>ereport(ERROR, ...)\<close> is a value \<open>Inl\<close> of the result type; the error
    carries the SQL error code and the message.
  \<^item> The discriminated union \<^verbatim>\<open>ms_type\<close> / \<^verbatim>\<open>ms_data\<close> is one datatype: the tag
    together with the member of the union that the tag selects. The fixed
    \<^verbatim>\<open>MS_MAXDATA\<close> bytes of the union are not modelled: lists are unbounded, and
    \<^verbatim>\<open>1 << log2m\<close> is \<open>2 ^ log2m\<close>.
\<close>

subsection \<open>Errors\<close>

text \<open>
  \<open>DIVERGES\<close> is not a PostgreSQL error: it stands for a call that never returns
  (the loop of \<^verbatim>\<open>integer_log2\<close> on a negative value).
\<close>

datatype error =
    ERRCODE_DATA_EXCEPTION string
  | ERRCODE_INVALID_PARAMETER_VALUE string
  | DIVERGES

type_synonym uint8_t = "8 word"
type_synonym uint32_t = "32 word"
type_synonym uint64_t = "64 word"

subsection \<open>Process-wide settings\<close>

text \<open>
  \<^verbatim>\<open>g_output_version\<close> (initially 1; \<^verbatim>\<open>hll_set_output_version\<close> accepts only 1)
  and \<^verbatim>\<open>g_max_sparse\<close> (initially -1; \<^verbatim>\<open>hll_set_max_sparse\<close> accepts values
  from -1 on).
\<close>

record settings =
  g_output_version :: nat
  g_max_sparse :: int

definition default_settings :: settings where
  "default_settings = \<lparr>g_output_version = 1, g_max_sparse = - 1\<rparr>"

definition DEFAULT_LOG2M :: int where "DEFAULT_LOG2M = 11"
definition DEFAULT_REGWIDTH :: int where "DEFAULT_REGWIDTH = 5"
definition DEFAULT_EXPTHRESH :: int where "DEFAULT_EXPTHRESH = - 1"
definition DEFAULT_SPARSEON :: int where "DEFAULT_SPARSEON = 1"

definition MS_MAXDATA :: nat where "MS_MAXDATA = 128 * 1024"

text \<open>Subtraction of \<^verbatim>\<open>size_t\<close> values: wraps modulo \<open>2 ^ 64\<close>.\<close>

definition size_sub :: "nat \<Rightarrow> nat \<Rightarrow> nat" where
  "size_sub a b = (a + 2 ^ 64 - b mod 2 ^ 64) mod 2 ^ 64"

subsection \<open>The explicit threshold\<close>

definition decode_expthresh :: "nat \<Rightarrow> int" where
  "decode_expthresh encoded_expthresh =
     (if encoded_expthresh = 63 then - 1
      else if encoded_expthresh = 0 then 0
      else 2 ^ (encoded_expthresh - 1))"

function integer_log2_loop :: "int \<Rightarrow> int \<Rightarrow> int" where
  "integer_log2_loop val cnt =
     (if 0 < val then integer_log2_loop (val div 2) (cnt + 1) else cnt)"
  by pat_completeness auto
termination
  by (relation "measure (\<lambda>(val, cnt). nat val)") auto

declare integer_log2_loop.simps [simp del]

text \<open>
  \<^verbatim>\<open>while (value) { ++count; value >>= 1; }\<close> on an \<^verbatim>\<open>int64\<close>: for a negative
  value the arithmetic shift never reaches 0, so the call does not return.
\<close>

definition integer_log2 :: "int \<Rightarrow> error + int" where
  "integer_log2 val =
     (if val < 0 then Inl DIVERGES else Inr (integer_log2_loop val 0 - 1))"

definition encode_expthresh :: "int \<Rightarrow> error + int" where
  "encode_expthresh expthresh =
     (if expthresh = - 1 then Inr 63
      else if expthresh = 0 then Inr 0
      else (case integer_log2 expthresh of
              Inl e \<Rightarrow> Inl e
            | Inr l \<Rightarrow> Inr (l + 1)))"

text \<open>\<^verbatim>\<open>(size_t) expthresh\<close> is the value modulo \<open>2 ^ 64\<close>.\<close>

definition expthresh_value :: "int \<Rightarrow> nat \<Rightarrow> nat \<Rightarrow> nat" where
  "expthresh_value expthresh nbits nregs =
     (if expthresh \<noteq> - 1 then nat (expthresh mod 2 ^ 64)
      else (let cmpsz = ((nbits * nregs) + 7) div 8 in cmpsz div 8))"

subsection \<open>The in-memory sketch\<close>

datatype ms_data =
    MST_UNDEFINED
  | MST_EMPTY
  | MST_EXPLICIT "uint64_t list"
  | MST_SPARSE
  | MST_COMPRESSED "uint8_t list"
  | MST_UNINIT

record multiset_t =
  ms_nbits :: nat
  ms_nregs :: nat
  ms_log2nregs :: nat
  ms_expthresh :: int
  ms_sparseon :: bool
  ms_data :: ms_data

text \<open>The numeric value of the tag \<^verbatim>\<open>ms_type\<close>.\<close>

fun type_code :: "ms_data \<Rightarrow> nat" where
  "type_code MST_UNDEFINED = 0"
| "type_code MST_EMPTY = 1"
| "type_code (MST_EXPLICIT es) = 2"
| "type_code MST_SPARSE = 3"
| "type_code (MST_COMPRESSED rs) = 4"
| "type_code MST_UNINIT = 65535"

definition ms_type :: "multiset_t \<Rightarrow> nat" where
  "ms_type ms = type_code (ms_data ms)"

subsection \<open>Reading the bit stream\<close>

text \<open>
  A byte of a buffer; a byte past its end is modelled as 0. The code below looks at
  such a byte only inside the 8-byte window of the bit stream cursor, in bits that it
  masks away or leaves unchanged.
\<close>

definition byte_at :: "uint8_t list \<Rightarrow> nat \<Rightarrow> uint8_t" where
  "byte_at buf i = (if i < length buf then buf ! i else 0)"

text \<open>
  \<^verbatim>\<open>bswap_64(* (uint64_t const *) p)\<close> on a little-endian host: the byte at
  \<open>p\<close> is the most significant one.
\<close>

definition load_qw :: "uint8_t list \<Rightarrow> nat \<Rightarrow> uint64_t" where
  "load_qw buf p =
     push_bit 56 (ucast (byte_at buf p)) OR
     push_bit 48 (ucast (byte_at buf (p + 1))) OR
     push_bit 40 (ucast (byte_at buf (p + 2))) OR
     push_bit 32 (ucast (byte_at buf (p + 3))) OR
     push_bit 24 (ucast (byte_at buf (p + 4))) OR
     push_bit 16 (ucast (byte_at buf (p + 5))) OR
     push_bit 8 (ucast (byte_at buf (p + 6))) OR
     ucast (byte_at buf (p + 7))"

record bitstream_read_cursor_t =
  brc_nbits :: nat
  brc_mask :: uint32_t
  brc_curp :: nat
  brc_used :: nat

text \<open>\<^verbatim>\<open>while (used >= 8) { used -= 8; curp += 1; }\<close>\<close>

function normalize_cursor :: "nat \<Rightarrow> nat \<Rightarrow> nat \<times> nat" where
  "normalize_cursor curp used =
     (if 8 \<le> used then normalize_cursor (curp + 1) (used - 8) else (curp, used))"
  by pat_completeness auto
termination
  by (relation "measure (\<lambda>(curp, used). used)") auto

declare normalize_cursor.simps [simp del]

definition bitstream_unpack ::
  "uint8_t list \<Rightarrow> bitstream_read_cursor_t \<Rightarrow> uint32_t \<times> bitstream_read_cursor_t" where
  "bitstream_unpack buf brc =
     (let qw = load_qw buf (brc_curp brc);
          qw = drop_bit (64 - brc_nbits brc - brc_used brc) qw;
          retval = (ucast (qw AND 0xffffffff) :: uint32_t) AND brc_mask brc;
          (curp, used) = normalize_cursor (brc_curp brc) (brc_used brc + brc_nbits brc)
      in (retval, brc\<lparr>brc_curp := curp, brc_used := used\<rparr>))"

fun compressed_unpack_loop ::
  "uint8_t list \<Rightarrow> nat \<Rightarrow> bitstream_read_cursor_t \<Rightarrow> uint8_t list" where
  "compressed_unpack_loop buf 0 brc = []"
| "compressed_unpack_loop buf (Suc n) brc =
     (let (val, brc') = bitstream_unpack buf brc
      in ucast val # compressed_unpack_loop buf n brc')"

definition compressed_unpack ::
  "nat \<Rightarrow> nat \<Rightarrow> uint8_t list \<Rightarrow> nat \<Rightarrow> error + uint8_t list" where
  "compressed_unpack i_width i_nregs i_bitp i_size =
     (let bitsz = i_width * i_nregs in
      if i_size * 8 < bitsz
      then Inl (ERRCODE_DATA_EXCEPTION ''compressed hll argument not large enough'')
      else let padsz = i_size * 8 - bitsz in
      if 8 \<le> padsz
      then Inl (ERRCODE_DATA_EXCEPTION ''inconsistent padding in compressed hll argument'')
      else Inr (compressed_unpack_loop i_bitp i_nregs
                 \<lparr>brc_nbits = i_width, brc_mask = push_bit i_width 1 - 1,
                  brc_curp = 0, brc_used = 0\<rparr>))"

fun sparse_unpack_loop ::
  "uint8_t list \<Rightarrow> nat \<Rightarrow> uint32_t \<Rightarrow> nat \<Rightarrow> bitstream_read_cursor_t \<Rightarrow>
   uint8_t list \<Rightarrow> uint8_t list" where
  "sparse_unpack_loop buf i_width regmask 0 brc i_regp = i_regp"
| "sparse_unpack_loop buf i_width regmask (Suc n) brc i_regp =
     (let (buffer, brc') = bitstream_unpack buf brc;
          val = buffer AND regmask;
          ndx = drop_bit i_width buffer
      in sparse_unpack_loop buf i_width regmask n brc' (i_regp[unat ndx := ucast val]))"

definition sparse_unpack ::
  "uint8_t list \<Rightarrow> nat \<Rightarrow> nat \<Rightarrow> nat \<Rightarrow> uint8_t list \<Rightarrow> nat \<Rightarrow> error + uint8_t list" where
  "sparse_unpack i_regp i_width i_log2nregs i_nfilled i_bitp i_size =
     (let chunksz = i_log2nregs + i_width;
          bitsz = chunksz * i_nfilled;
          padsz = size_sub (i_size * 8) bitsz in
      if 8 \<le> padsz
      then Inl (ERRCODE_DATA_EXCEPTION ''inconsistent padding in sparse hll argument'')
      else Inr (sparse_unpack_loop i_bitp i_width (push_bit i_width 1 - 1) i_nfilled
                 \<lparr>brc_nbits = chunksz, brc_mask = push_bit chunksz 1 - 1,
                  brc_curp = 0, brc_used = 0\<rparr> i_regp))"

subsection \<open>Writing the bit stream\<close>

text \<open>
  Writing the 8-byte window back: the bytes that lie past the end of the buffer are
  not part of the result.
\<close>

definition store_byte :: "uint8_t list \<Rightarrow> nat \<Rightarrow> uint8_t \<Rightarrow> uint8_t list" where
  "store_byte buf i b = (if i < length buf then buf[i := b] else buf)"

definition store_qw :: "uint8_t list \<Rightarrow> nat \<Rightarrow> uint64_t \<Rightarrow> uint8_t list" where
  "store_qw buf p qw =
     store_byte (store_byte (store_byte (store_byte
     (store_byte (store_byte (store_byte (store_byte buf
        p (ucast (drop_bit 56 qw)))
        (p + 1) (ucast (drop_bit 48 qw)))
        (p + 2) (ucast (drop_bit 40 qw)))
        (p + 3) (ucast (drop_bit 32 qw)))
        (p + 4) (ucast (drop_bit 24 qw)))
        (p + 5) (ucast (drop_bit 16 qw)))
        (p + 6) (ucast (drop_bit 8 qw)))
        (p + 7) (ucast qw)"

record bitstream_write_cursor_t =
  bwc_nbits :: nat
  bwc_curp :: nat
  bwc_used :: nat

definition bitstream_pack ::
  "uint8_t list \<Rightarrow> bitstream_write_cursor_t \<Rightarrow> uint32_t \<Rightarrow>
   uint8_t list \<times> bitstream_write_cursor_t" where
  "bitstream_pack buf bwc val =
     (let qw = load_qw buf (bwc_curp bwc);
          qw = qw OR push_bit (64 - bwc_nbits bwc - bwc_used bwc) (ucast val :: uint64_t);
          buf' = store_qw buf (bwc_curp bwc) qw;
          (curp, used) = normalize_cursor (bwc_curp bwc) (bwc_used bwc + bwc_nbits bwc)
      in (buf', bwc\<lparr>bwc_curp := curp, bwc_used := used\<rparr>))"

fun compressed_pack_loop ::
  "uint8_t list \<Rightarrow> uint8_t list \<Rightarrow> bitstream_write_cursor_t \<Rightarrow> uint8_t list" where
  "compressed_pack_loop [] buf bwc = buf"
| "compressed_pack_loop (r # i_regp) buf bwc =
     (let (buf', bwc') = bitstream_pack buf bwc (ucast r)
      in compressed_pack_loop i_regp buf' bwc')"

definition compressed_pack ::
  "uint8_t list \<Rightarrow> nat \<Rightarrow> nat \<Rightarrow> nat \<Rightarrow> error + uint8_t list" where
  "compressed_pack i_regp i_width i_nregs i_size =
     (let o_bitp = replicate i_size 0;
          bitsz = i_width * i_nregs in
      if i_size * 8 < bitsz
      then Inl (ERRCODE_DATA_EXCEPTION ''compressed output buffer not large enough'')
      else let padsz = i_size * 8 - bitsz in
      if 8 \<le> padsz
      then Inl (ERRCODE_DATA_EXCEPTION ''inconsistent compressed output pad size'')
      else Inr (compressed_pack_loop (take i_nregs i_regp) o_bitp
                 \<lparr>bwc_nbits = i_width, bwc_curp = 0, bwc_used = 0\<rparr>))"

text \<open>The loop of \<^verbatim>\<open>sparse_pack\<close>; \<open>ndx\<close> is the index of the head of the list.\<close>

fun sparse_pack_loop ::
  "uint8_t list \<Rightarrow> nat \<Rightarrow> nat \<Rightarrow> uint8_t list \<Rightarrow> bitstream_write_cursor_t \<Rightarrow> uint8_t list" where
  "sparse_pack_loop [] i_width ndx buf bwc = buf"
| "sparse_pack_loop (r # i_regp) i_width ndx buf bwc =
     (if r \<noteq> 0
      then (let buffer = (push_bit i_width (of_nat ndx) OR ucast r :: uint32_t);
                (buf', bwc') = bitstream_pack buf bwc buffer
            in sparse_pack_loop i_regp i_width (ndx + 1) buf' bwc')
      else sparse_pack_loop i_regp i_width (ndx + 1) buf bwc)"

definition sparse_pack ::
  "uint8_t list \<Rightarrow> nat \<Rightarrow> nat \<Rightarrow> nat \<Rightarrow> nat \<Rightarrow> nat \<Rightarrow> error + uint8_t list" where
  "sparse_pack i_regp i_width i_nregs i_log2nregs i_nfilled i_size =
     (let o_bitp = replicate i_size 0;
          bitsz = i_nfilled * (i_log2nregs + i_width) in
      if i_size * 8 < bitsz
      then Inl (ERRCODE_DATA_EXCEPTION ''sparse output buffer not large enough'')
      else let padsz = i_size * 8 - bitsz in
      if 8 \<le> padsz
      then Inl (ERRCODE_DATA_EXCEPTION ''inconsistent sparse output pad size'')
      else Inr (sparse_pack_loop (take i_nregs i_regp) i_width 0 o_bitp
                 \<lparr>bwc_nbits = i_log2nregs + i_width, bwc_curp = 0, bwc_used = 0\<rparr>))"

subsection \<open>The version 1 header\<close>

text \<open>
  The three header bytes. Each assignment truncates to \<^verbatim>\<open>uint8_t\<close>;
  \<^verbatim>\<open>nbits - 1\<close> is a \<^verbatim>\<open>size_t\<close> subtraction and wraps around for \<open>nbits = 0\<close>.
\<close>

definition pack_header ::
  "nat \<Rightarrow> nat \<Rightarrow> nat \<Rightarrow> nat \<Rightarrow> int \<Rightarrow> nat \<Rightarrow> error + uint8_t list" where
  "pack_header vers type nbits log2nregs expthresh sparseon =
     (case encode_expthresh expthresh of
        Inl e \<Rightarrow> Inl e
      | Inr enc \<Rightarrow>
          Inr [of_nat (push_bit 4 vers OR type),
               ucast (push_bit 5 (of_nat nbits - 1 :: uint64_t) OR of_nat log2nregs),
               ucast (push_bit 6 (of_nat sparseon :: uint64_t) OR of_int enc)])"

definition unpack_header :: "uint8_t list \<Rightarrow> ms_data \<Rightarrow> multiset_t" where
  "unpack_header i_bitp d =
     (let log2nregs = unat (byte_at i_bitp 1 AND 0x1f) in
      \<lparr>ms_nbits = unat (drop_bit 5 (byte_at i_bitp 1)) + 1,
       ms_nregs = 2 ^ log2nregs,
       ms_log2nregs = log2nregs,
       ms_expthresh = decode_expthresh (unat (byte_at i_bitp 2 AND 0x3f)),
       ms_sparseon = (drop_bit 6 (byte_at i_bitp 2) AND 1 \<noteq> 0),
       ms_data = d\<rparr>)"

subsection \<open>Explicit lists\<close>

text \<open>Tokens are compared as signed 64-bit integers.\<close>

definition element_compare :: "uint64_t \<Rightarrow> uint64_t \<Rightarrow> int" where
  "element_compare v1 v2 =
     (if sint v1 < sint v2 then - 1 else if sint v1 > sint v2 then 1 else 0)"

fun explicit_validate :: "uint64_t list \<Rightarrow> error + unit" where
  "explicit_validate (x # y # elems) =
     (if element_compare x y \<noteq> - 1
      then Inl (ERRCODE_DATA_EXCEPTION ''duplicate or descending explicit elements'')
      else explicit_validate (y # elems))"
| "explicit_validate elems = Inr ()"

text \<open>One big-endian token at offset \<open>ndx\<close> of the frame.\<close>

definition unpack_element :: "uint8_t list \<Rightarrow> nat \<Rightarrow> uint64_t" where
  "unpack_element i_bitp ndx =
     push_bit 56 (ucast (byte_at i_bitp ndx)) OR
     push_bit 48 (ucast (byte_at i_bitp (ndx + 1))) OR
     push_bit 40 (ucast (byte_at i_bitp (ndx + 2))) OR
     push_bit 32 (ucast (byte_at i_bitp (ndx + 3))) OR
     push_bit 24 (ucast (byte_at i_bitp (ndx + 4))) OR
     push_bit 16 (ucast (byte_at i_bitp (ndx + 5))) OR
     push_bit 8 (ucast (byte_at i_bitp (ndx + 6))) OR
     push_bit 0 (ucast (byte_at i_bitp (ndx + 7)))"

fun unpack_elements :: "uint8_t list \<Rightarrow> nat \<Rightarrow> nat \<Rightarrow> uint64_t list" where
  "unpack_elements i_bitp ndx 0 = []"
| "unpack_elements i_bitp ndx (Suc nelem) =
     unpack_element i_bitp ndx # unpack_elements i_bitp (ndx + 8) nelem"

definition pack_element :: "uint64_t \<Rightarrow> uint8_t list" where
  "pack_element val =
     [ucast (drop_bit 56 val AND 0xff), ucast (drop_bit 48 val AND 0xff),
      ucast (drop_bit 40 val AND 0xff), ucast (drop_bit 32 val AND 0xff),
      ucast (drop_bit 24 val AND 0xff), ucast (drop_bit 16 val AND 0xff),
      ucast (drop_bit 8 val AND 0xff), ucast (drop_bit 0 val AND 0xff)]"

subsection \<open>Decoding a frame\<close>

text \<open>
  \<^verbatim>\<open>multiset_unpack\<close>. The frame is \<open>i_bitp\<close>, its length \<open>i_size\<close> is the length of
  the list. The result is the sketch; the type nibble that the function stores in
  \<^verbatim>\<open>*o_encoded_type\<close> is \<open>encoded_type\<close>.
\<close>

definition encoded_type :: "uint8_t list \<Rightarrow> nat" where
  "encoded_type i_bitp = unat (byte_at i_bitp 0 AND 0xf)"

definition multiset_unpack :: "uint8_t list \<Rightarrow> error + multiset_t" where
  "multiset_unpack i_bitp =
     (let i_size = length i_bitp;
          vers = unat (drop_bit 4 (byte_at i_bitp 0) AND 0xf);
          type = unat (byte_at i_bitp 0 AND 0xf);
          hdrsz = 3 in
      if vers \<noteq> 1 then Inl (ERRCODE_DATA_EXCEPTION ''unknown schema version'')
      else if type = 1 then
        (if i_size \<noteq> hdrsz
         then Inl (ERRCODE_DATA_EXCEPTION ''inconsistently sized empty multiset'')
         else Inr (unpack_header i_bitp MST_EMPTY))
      else if type = 2 then
        (let nelem = size_sub i_size hdrsz div 8 in
         if size_sub i_size hdrsz mod 8 \<noteq> 0
         then Inl (ERRCODE_DATA_EXCEPTION ''inconsistently sized explicit multiset'')
         else if size_sub i_size hdrsz > MS_MAXDATA
         then Inl (ERRCODE_DATA_EXCEPTION ''explicit multiset too large'')
         else (let elems = unpack_elements i_bitp hdrsz nelem in
               case explicit_validate elems of
                 Inl e \<Rightarrow> Inl e
               | Inr u \<Rightarrow> Inr (unpack_header i_bitp (MST_EXPLICIT elems))))
      else if type = 4 then
        (let param = byte_at i_bitp 1;
             nbits = unat (drop_bit 5 param) + 1;
             log2nregs = unat (param AND 0x1f);
             nregs = 2 ^ log2nregs;
             bitsz = nbits * nregs;
             packedbytesz = (bitsz + 7) div 8 in
         if size_sub i_size hdrsz \<noteq> packedbytesz
         then Inl (ERRCODE_DATA_EXCEPTION ''inconsistently sized compressed multiset'')
         else if nregs > MS_MAXDATA
         then Inl (ERRCODE_DATA_EXCEPTION ''compressed multiset too large'')
         else (case compressed_unpack nbits nregs (drop hdrsz i_bitp) (size_sub i_size hdrsz) of
                 Inl e \<Rightarrow> Inl e
               | Inr regs \<Rightarrow> Inr (unpack_header i_bitp (MST_COMPRESSED regs))))
      else if type = 0 then
        (if i_size \<noteq> hdrsz
         then Inl (ERRCODE_DATA_EXCEPTION ''undefined multiset value'')
         else Inr (unpack_header i_bitp MST_UNDEFINED))
      else if type = 3 then
        (if i_size < hdrsz
         then Inl (ERRCODE_DATA_EXCEPTION ''sparse multiset too small'')
         else
          (let param = byte_at i_bitp 1;
               nbits = unat (drop_bit 5 param) + 1;
               log2nregs = unat (param AND 0x1f);
               nregs = 2 ^ log2nregs;
               bitsz = (i_size - hdrsz) * 8;
               chunksz = log2nregs + nbits;
               nfilled = bitsz div chunksz in
           if nregs > MS_MAXDATA
           then Inl (ERRCODE_DATA_EXCEPTION ''sparse multiset too large'')
           else (case sparse_unpack (replicate nregs 0) nbits log2nregs nfilled
                        (drop hdrsz i_bitp) (i_size - hdrsz) of
                   Inl e \<Rightarrow> Inl e
                 | Inr regs \<Rightarrow> Inr (unpack_header i_bitp (MST_COMPRESSED regs)))))
      else Inl (ERRCODE_DATA_EXCEPTION ''undefined multiset type''))"

subsection \<open>Encoding a sketch\<close>

definition numfilled :: "multiset_t \<Rightarrow> nat" where
  "numfilled i_msp =
     (case ms_data i_msp of
        MST_COMPRESSED regs \<Rightarrow> length (filter (\<lambda>r. r > 0) (take (ms_nregs i_msp) regs))
      | _ \<Rightarrow> 0)"

fun pack_elements :: "uint64_t list \<Rightarrow> uint8_t list" where
  "pack_elements [] = []"
| "pack_elements (val # elems) = pack_element val @ pack_elements elems"

text \<open>
  \<^verbatim>\<open>multiset_pack\<close>: the result is the sequence of bytes written to \<open>o_bitp\<close>, of
  which \<open>i_size\<close> bytes were allocated by the caller. In the comparison
  \<^verbatim>\<open>nfilled <= g_max_sparse\<close> the \<^verbatim>\<open>int\<close> is converted to \<^verbatim>\<open>size_t\<close>.
\<close>

definition multiset_pack :: "settings \<Rightarrow> multiset_t \<Rightarrow> nat \<Rightarrow> error + uint8_t list" where
  "multiset_pack cfg i_msp i_size =
     (let vers = g_output_version cfg;
          nbits = ms_nbits i_msp;
          log2nregs = ms_log2nregs i_msp;
          expthresh = ms_expthresh i_msp;
          sparseon = (if ms_sparseon i_msp then 1 else 0) in
      case ms_data i_msp of
        MST_EMPTY \<Rightarrow> pack_header vers 1 nbits log2nregs expthresh sparseon
      | MST_EXPLICIT elems \<Rightarrow>
          (case pack_header vers 2 nbits log2nregs expthresh sparseon of
             Inl e \<Rightarrow> Inl e
           | Inr hdr \<Rightarrow> Inr (hdr @ pack_elements elems))
      | MST_COMPRESSED regs \<Rightarrow>
          (let nregs = ms_nregs i_msp;
               nfilled = numfilled i_msp;
               sparsebitsz = nfilled * (log2nregs + nbits);
               cmprssbitsz = nregs * nbits in
           if ms_sparseon i_msp \<and>
              ((g_max_sparse cfg \<noteq> - 1 \<and> int nfilled \<le> g_max_sparse cfg mod 2 ^ 64) \<or>
               (g_max_sparse cfg = - 1 \<and> sparsebitsz < cmprssbitsz))
           then
             (case pack_header vers 3 nbits log2nregs expthresh sparseon of
                Inl e \<Rightarrow> Inl e
              | Inr hdr \<Rightarrow>
                  (case sparse_pack regs nbits nregs log2nregs nfilled (size_sub i_size 3) of
                     Inl e \<Rightarrow> Inl e
                   | Inr body \<Rightarrow> Inr (hdr @ body)))
           else
             (case pack_header vers 4 nbits log2nregs expthresh sparseon of
                Inl e \<Rightarrow> Inl e
              | Inr hdr \<Rightarrow>
                  (case compressed_pack regs nbits nregs (size_sub i_size 3) of
                     Inl e \<Rightarrow> Inl e
                   | Inr body \<Rightarrow> Inr (hdr @ body))))
      | MST_UNDEFINED \<Rightarrow> pack_header vers 0 nbits log2nregs expthresh sparseon
      | MST_SPARSE \<Rightarrow> Inl (ERRCODE_DATA_EXCEPTION ''invalid internal sparse format'')
      | MST_UNINIT \<Rightarrow> Inl (ERRCODE_DATA_EXCEPTION ''undefined multiset type value #2''))"

text \<open>
  \<^verbatim>\<open>multiset_packed_size\<close>. For an output version other than 1 the function only
  has \<^verbatim>\<open>Assert(vers == 1)\<close>, a no-op in a production build, and returns 0.
\<close>

definition multiset_packed_size :: "settings \<Rightarrow> multiset_t \<Rightarrow> error + nat" where
  "multiset_packed_size cfg i_msp =
     (let vers = g_output_version cfg in
      case ms_data i_msp of
        MST_EMPTY \<Rightarrow> Inr (if vers = 1 then 3 else 0)
      | MST_EXPLICIT elems \<Rightarrow> Inr (if vers = 1 then 3 + (8 * length elems) else 0)
      | MST_COMPRESSED regs \<Rightarrow>
          (if vers = 1 then
             (let hdrsz = 3;
                  nbits = ms_nbits i_msp;
                  nregs = ms_nregs i_msp;
                  nfilled = numfilled i_msp;
                  log2nregs = ms_log2nregs i_msp;
                  sparsebitsz = numfilled i_msp * (log2nregs + nbits);
                  cmprssbitsz = nregs * nbits in
              if ms_sparseon i_msp \<and>
                 ((g_max_sparse cfg \<noteq> - 1 \<and> int nfilled \<le> g_max_sparse cfg mod 2 ^ 64) \<or>
                  (g_max_sparse cfg = - 1 \<and> sparsebitsz < cmprssbitsz))
              then Inr (hdrsz + ((sparsebitsz + 7) div 8))
              else Inr (hdrsz + ((cmprssbitsz + 7) div 8)))
           else Inr 0)
      | MST_UNDEFINED \<Rightarrow> Inr (if vers = 1 then 3 else 0)
      | MST_SPARSE \<Rightarrow> Inl (ERRCODE_DATA_EXCEPTION ''invalid internal sparse format'')
      | MST_UNINIT \<Rightarrow> Inl (ERRCODE_DATA_EXCEPTION ''undefined multiset type value #4''))"

subsection \<open>Metadata\<close>

definition check_metadata :: "multiset_t \<Rightarrow> multiset_t \<Rightarrow> error + unit" where
  "check_metadata i_omp i_imp =
     (if ms_nbits i_omp \<noteq> ms_nbits i_imp
      then Inl (ERRCODE_DATA_EXCEPTION ''register width does not match'')
      else if ms_nregs i_omp \<noteq> ms_nregs i_imp
      then Inl (ERRCODE_DATA_EXCEPTION ''register count does not match'')
      else if ms_expthresh i_omp \<noteq> ms_expthresh i_imp
      then Inl (ERRCODE_DATA_EXCEPTION ''explicit threshold does not match'')
      else if ms_sparseon i_omp \<noteq> ms_sparseon i_imp
      then Inl (ERRCODE_DATA_EXCEPTION ''sparse enable does not match'')
      else Inr ())"

definition copy_metadata :: "multiset_t \<Rightarrow> multiset_t \<Rightarrow> multiset_t" where
  "copy_metadata o_msp i_msp =
     o_msp\<lparr>ms_nbits := ms_nbits i_msp, ms_nregs := ms_nregs i_msp,
           ms_log2nregs := ms_log2nregs i_msp, ms_expthresh := ms_expthresh i_msp,
           ms_sparseon := ms_sparseon i_msp\<rparr>"

subsection \<open>Insertion\<close>

text \<open>
  \<^verbatim>\<open>__builtin_ctzll\<close>: the number of trailing zero bits of a non-zero 64-bit value
  (the result for 0 is undefined in C; the code never asks for it).
\<close>

function ctz_nat :: "nat \<Rightarrow> nat" where
  "ctz_nat n = (if n = 0 \<or> odd n then 0 else Suc (ctz_nat (n div 2)))"
  by pat_completeness auto
termination
  by (relation "measure (\<lambda>n. n)") auto

declare ctz_nat.simps [simp del]

definition builtin_ctzll :: "uint64_t \<Rightarrow> nat" where
  "builtin_ctzll w = ctz_nat (unat w)"

text \<open>
  \<^verbatim>\<open>compressed_add\<close> works on the registers of a compressed sketch; its callers call
  it on no other sketch.
\<close>

definition compressed_add :: "multiset_t \<Rightarrow> uint64_t \<Rightarrow> multiset_t" where
  "compressed_add o_msp elem =
     (case ms_data o_msp of
        MST_COMPRESSED regs \<Rightarrow>
          (let nbits = ms_nbits o_msp;
               nregs = ms_nregs o_msp;
               log2nregs = ms_log2nregs o_msp;
               mask = (of_nat nregs - 1 :: uint64_t);
               maxregval = 2 ^ nbits - 1;
               ndx = unat (elem AND mask);
               ss_val = drop_bit log2nregs elem;
               p_w = (if ss_val = 0 then 0 else builtin_ctzll ss_val + 1);
               p_w = (if p_w > maxregval then maxregval else p_w)
           in if unat (regs ! ndx) < p_w
              then o_msp\<lparr>ms_data := MST_COMPRESSED (regs[ndx := of_nat p_w])\<rparr>
              else o_msp)
      | _ \<Rightarrow> o_msp)"

fun compressed_explicit_union :: "multiset_t \<Rightarrow> uint64_t list \<Rightarrow> multiset_t" where
  "compressed_explicit_union o_msp [] = o_msp"
| "compressed_explicit_union o_msp (e # elems) =
     compressed_explicit_union (compressed_add o_msp e) elems"

text \<open>
  \<^verbatim>\<open>explicit_to_compressed\<close>: the sketch is cleared (\<^verbatim>\<open>memset\<close>), the metadata is
  restored, the type becomes \<^verbatim>\<open>MST_COMPRESSED\<close> and the saved elements are added.
\<close>

definition explicit_to_compressed :: "multiset_t \<Rightarrow> multiset_t" where
  "explicit_to_compressed msp =
     (case ms_data msp of
        MST_EXPLICIT elems \<Rightarrow>
          compressed_explicit_union
            (msp\<lparr>ms_data := MST_COMPRESSED (replicate (ms_nregs msp) 0)\<rparr>) elems
      | _ \<Rightarrow> msp)"

text \<open>
  \<^verbatim>\<open>bsearch\<close> and \<^verbatim>\<open>qsort\<close> belong to the C library. \<^verbatim>\<open>bsearch\<close> is the binary
  search over the first \<open>nmemb\<close> elements with \<open>element_compare\<close>; the code uses only
  whether it finds the key. \<^verbatim>\<open>qsort\<close> sorts ascending under \<open>element_compare\<close>;
  elements that compare equal are the same word, so the result is determined.
\<close>

function bsearch_loop :: "uint64_t \<Rightarrow> uint64_t list \<Rightarrow> nat \<Rightarrow> nat \<Rightarrow> bool" where
  "bsearch_loop key base l u =
     (if l < u
      then (let idx = (l + u) div 2;
                comparison = element_compare key (base ! idx)
            in if comparison < 0 then bsearch_loop key base l idx
               else if comparison > 0 then bsearch_loop key base (idx + 1) u
               else True)
      else False)"
  by pat_completeness auto
termination
  by (relation "measure (\<lambda>(key, base, l, u). u - l)") auto

declare bsearch_loop.simps [simp del]

definition bsearch :: "uint64_t \<Rightarrow> uint64_t list \<Rightarrow> nat \<Rightarrow> bool" where
  "bsearch key base nmemb = bsearch_loop key base 0 nmemb"

definition qsort :: "uint64_t list \<Rightarrow> uint64_t list" where
  "qsort elems = sort_key sint elems"

definition multiset_add :: "multiset_t \<Rightarrow> uint64_t \<Rightarrow> error + multiset_t" where
  "multiset_add o_msp element =
     (let expval = expthresh_value (ms_expthresh o_msp) (ms_nbits o_msp) (ms_nregs o_msp) in
      case ms_data o_msp of
        MST_EMPTY \<Rightarrow>
          (if expval = 0
           then Inr (compressed_add
                      (explicit_to_compressed (o_msp\<lparr>ms_data := MST_EXPLICIT []\<rparr>)) element)
           else Inr (o_msp\<lparr>ms_data := MST_EXPLICIT [element]\<rparr>))
      | MST_EXPLICIT elems \<Rightarrow>
          (if bsearch element elems (length elems) then Inr o_msp
           else if length elems = expval
           then Inr (compressed_add (explicit_to_compressed o_msp) element)
           else Inr (o_msp\<lparr>ms_data := MST_EXPLICIT (qsort (elems @ [element]))\<rparr>))
      | MST_COMPRESSED regs \<Rightarrow> Inr (compressed_add o_msp element)
      | MST_UNDEFINED \<Rightarrow> Inr o_msp
      | _ \<Rightarrow> Inl (ERRCODE_DATA_EXCEPTION ''undefined multiset type value #1''))"

text \<open>Inserting a list of tokens one by one, stopping at the first error.\<close>

fun multiset_add_all :: "multiset_t \<Rightarrow> uint64_t list \<Rightarrow> error + multiset_t" where
  "multiset_add_all msp [] = Inr msp"
| "multiset_add_all msp (x # xs) =
     (case multiset_add msp x of
        Inl e \<Rightarrow> Inl e
      | Inr msp' \<Rightarrow> multiset_add_all msp' xs)"

subsection \<open>Union\<close>

fun explicit_union_loop ::
  "nat \<Rightarrow> nat \<Rightarrow> multiset_t \<Rightarrow> uint64_t list \<Rightarrow> multiset_t" where
  "explicit_union_loop expval orig_nelem o_msp [] = o_msp"
| "explicit_union_loop expval orig_nelem o_msp (element # i_elems) =
     (case ms_data o_msp of
        MST_EXPLICIT elems \<Rightarrow>
          (if bsearch element elems orig_nelem
           then explicit_union_loop expval orig_nelem o_msp i_elems
           else if length elems < expval
           then explicit_union_loop expval orig_nelem
                  (o_msp\<lparr>ms_data := MST_EXPLICIT (elems @ [element])\<rparr>) i_elems
           else explicit_union_loop expval orig_nelem
                  (compressed_add (explicit_to_compressed o_msp) element) i_elems)
      | MST_COMPRESSED regs \<Rightarrow>
          explicit_union_loop expval orig_nelem (compressed_add o_msp element) i_elems
      | _ \<Rightarrow> explicit_union_loop expval orig_nelem o_msp i_elems)"

definition explicit_union :: "multiset_t \<Rightarrow> uint64_t list \<Rightarrow> multiset_t" where
  "explicit_union o_msp i_elems =
     (let expval = expthresh_value (ms_expthresh o_msp) (ms_nbits o_msp) (ms_nregs o_msp);
          orig_nelem = (case ms_data o_msp of MST_EXPLICIT elems \<Rightarrow> length elems | _ \<Rightarrow> 0);
          r = explicit_union_loop expval orig_nelem o_msp i_elems
      in case ms_data r of
           MST_EXPLICIT elems \<Rightarrow> r\<lparr>ms_data := MST_EXPLICIT (qsort elems)\<rparr>
         | _ \<Rightarrow> r)"

text \<open>
  \<^verbatim>\<open>multiset_copy_size\<close> only decides how many bytes \<^verbatim>\<open>memcpy\<close> moves; what
  matters here is that it raises an error for the other types.
\<close>

definition multiset_copy_size :: "multiset_t \<Rightarrow> error + unit" where
  "multiset_copy_size i_msp =
     (case ms_data i_msp of
        MST_EMPTY \<Rightarrow> Inr ()
      | MST_EXPLICIT elems \<Rightarrow> Inr ()
      | MST_COMPRESSED regs \<Rightarrow> Inr ()
      | MST_UNDEFINED \<Rightarrow> Inr ()
      | _ \<Rightarrow> Inl (ERRCODE_DATA_EXCEPTION ''undefined multiset type value #3''))"

definition multiset_union :: "multiset_t \<Rightarrow> multiset_t \<Rightarrow> error + multiset_t" where
  "multiset_union o_msap i_msbp =
     (if ms_data o_msap = MST_UNDEFINED \<or> ms_data i_msbp = MST_UNDEFINED
      then Inr (o_msap\<lparr>ms_data := MST_UNDEFINED\<rparr>)
      else if ms_data i_msbp = MST_EMPTY then Inr o_msap
      else if ms_data o_msap = MST_EMPTY
      then (case multiset_copy_size i_msbp of Inl e \<Rightarrow> Inl e | Inr u \<Rightarrow> Inr i_msbp)
      else
        (case ms_data o_msap of
           MST_EXPLICIT elemsa \<Rightarrow>
             (case ms_data i_msbp of
                MST_EXPLICIT elemsb \<Rightarrow> Inr (explicit_union o_msap elemsb)
              | MST_COMPRESSED regsb \<Rightarrow> Inr (compressed_explicit_union i_msbp elemsa)
              | _ \<Rightarrow> Inl (ERRCODE_DATA_EXCEPTION ''undefined multiset type value #5''))
         | MST_COMPRESSED regsa \<Rightarrow>
             (case ms_data i_msbp of
                MST_EXPLICIT elemsb \<Rightarrow> Inr (compressed_explicit_union o_msap elemsb)
              | MST_COMPRESSED regsb \<Rightarrow>
                  (if ms_nregs o_msap \<noteq> ms_nregs i_msbp
                   then Inl (ERRCODE_DATA_EXCEPTION
                     ''union of differently length compressed vectors not supported'')
                   else Inr (o_msap\<lparr>ms_data := MST_COMPRESSED
                     (fold (\<lambda>ii regs. if regs ! ii < regsb ! ii
                                       then regs[ii := regsb ! ii] else regs)
                        [0..<ms_nregs o_msap] regsa)\<rparr>))
              | _ \<Rightarrow> Inl (ERRCODE_DATA_EXCEPTION ''undefined multiset type value #6''))
         | _ \<Rightarrow> Inl (ERRCODE_DATA_EXCEPTION ''undefined multiset type value #7'')))"

subsection \<open>Cardinality\<close>

text \<open>
  The estimator computes in \<^verbatim>\<open>double\<close>. The embedding takes the real numbers for
  \<^verbatim>\<open>double\<close> (no rounding, no infinities) and keeps every integer subexpression at its
  C type: \<^verbatim>\<open>max_register_value\<close>, \<^verbatim>\<open>pw_bits\<close>, \<^verbatim>\<open>total_bits\<close> and
  \<^verbatim>\<open>two_to_l\<close> are \<^verbatim>\<open>uint64\<close>, and so is the product \<^verbatim>\<open>-1 * two_to_l\<close>, in
  which the \<^verbatim>\<open>int\<close> \<open>-1\<close> is converted to \<^verbatim>\<open>uint64\<close> before the multiplication.
  A shift by 64 or more is undefined in C; \<open>push_bit\<close> yields 0 there.
\<close>

definition gamma_register_count_squared :: "int \<Rightarrow> error + real" where
  "gamma_register_count_squared nregs =
     (if nregs \<le> 8
      then Inl (ERRCODE_DATA_EXCEPTION ''number of registers too small'')
      else if nregs = 16 then Inr (0.673 * real_of_int nregs * real_of_int nregs)
      else if nregs = 32 then Inr (0.697 * real_of_int nregs * real_of_int nregs)
      else if nregs = 64 then Inr (0.709 * real_of_int nregs * real_of_int nregs)
      else Inr ((0.7213 / (1.0 + 1.079 / real_of_int nregs))
                  * real_of_int nregs * real_of_int nregs))"

text \<open>
  The loop over the registers: \<^verbatim>\<open>sum += 1.0 / (1L << rval)\<close> (the sum is \<open>rsum\<close>
  here) and the count of the zero registers.
\<close>

fun card_loop :: "uint8_t list \<Rightarrow> real \<Rightarrow> int \<Rightarrow> real \<times> int" where
  "card_loop [] rsum zero_count = (rsum, zero_count)"
| "card_loop (r # regs) rsum zero_count =
     (let rval = (ucast r :: uint64_t);
          rsum = rsum + 1.0 / real_of_int (sint (push_bit (unat rval) (1 :: uint64_t)))
      in card_loop regs rsum (if rval = 0 then zero_count + 1 else zero_count))"

definition multiset_card :: "multiset_t \<Rightarrow> error + real" where
  "multiset_card i_msp =
     (let nbits = ms_nbits i_msp;
          log2m = ms_log2nregs i_msp;
          max_register_value = (push_bit nbits 1 - 1 :: uint64_t);
          pw_bits = max_register_value - 1;
          total_bits = pw_bits + of_nat log2m;
          two_to_l = (push_bit (unat total_bits) 1 :: uint64_t);
          large_estimator_cutoff = real (unat two_to_l) / 30.0 in
      case ms_data i_msp of
        MST_EMPTY \<Rightarrow> Inr 0.0
      | MST_EXPLICIT elems \<Rightarrow> Inr (real (length elems))
      | MST_COMPRESSED regs \<Rightarrow>
          (let nregs = ms_nregs i_msp;
               (rsum, zero_count) = card_loop (take nregs regs) 0.0 0 in
           case gamma_register_count_squared (int nregs) of
             Inl e \<Rightarrow> Inl e
           | Inr g \<Rightarrow>
               (let estimator = g / rsum in
                if zero_count \<noteq> 0 \<and> estimator < 5.0 * real nregs / 2.0
                then Inr (real nregs * ln (real nregs / real_of_int zero_count))
                else if estimator \<le> large_estimator_cutoff
                then Inr estimator
                else Inr (real (unat ((- 1) * two_to_l))
                            * ln (1.0 - (estimator / real (unat two_to_l))))))
      | MST_UNDEFINED \<Rightarrow> Inr (- 1.0)
      | _ \<Rightarrow> Inl (ERRCODE_DATA_EXCEPTION ''undefined multiset type value #8''))"

subsection \<open>The SQL functions\<close>

definition check_modifiers :: "int \<Rightarrow> int \<Rightarrow> int \<Rightarrow> int \<Rightarrow> error + unit" where
  "check_modifiers log2m regwidth expthresh sparseon =
     (if log2m < 0 \<or> log2m > 31
      then Inl (ERRCODE_INVALID_PARAMETER_VALUE ''log2m modifier must be between 0 and 31'')
      else if regwidth < 0 \<or> regwidth > 7
      then Inl (ERRCODE_INVALID_PARAMETER_VALUE ''regwidth modifier must be between 0 and 7'')
      else if expthresh < - 1 \<or> expthresh > 4294967296
      then Inl (ERRCODE_INVALID_PARAMETER_VALUE
                  ''expthresh modifier must be between -1 and 2^32'')
      else if expthresh > 0 \<and>
              (case integer_log2 expthresh of
                 Inl e \<Rightarrow> True
               | Inr l \<Rightarrow> 2 ^ nat l \<noteq> expthresh)
      then Inl (ERRCODE_INVALID_PARAMETER_VALUE ''expthresh modifier must be power of 2'')
      else if sparseon < 0 \<or> sparseon > 1
      then Inl (ERRCODE_INVALID_PARAMETER_VALUE ''sparseon modifier must be 0 or 1'')
      else Inr ())"

text \<open>The empty sketch that \<^verbatim>\<open>hll_empty4\<close> builds after \<open>check_modifiers\<close>.\<close>

definition empty_multiset :: "int \<Rightarrow> int \<Rightarrow> int \<Rightarrow> int \<Rightarrow> multiset_t" where
  "empty_multiset log2m regwidth expthresh sparseon =
     \<lparr>ms_nbits = nat regwidth,
      ms_nregs = 2 ^ nat log2m,
      ms_log2nregs = nat log2m,
      ms_expthresh = expthresh,
      ms_sparseon = (sparseon \<noteq> 0),
      ms_data = MST_EMPTY\<rparr>"

text \<open>Packing a result: \<^verbatim>\<open>multiset_packed_size\<close>, \<^verbatim>\<open>palloc\<close>, \<^verbatim>\<open>multiset_pack\<close>.\<close>

definition pack_result :: "settings \<Rightarrow> multiset_t \<Rightarrow> error + uint8_t list" where
  "pack_result cfg ms =
     (case multiset_packed_size cfg ms of
        Inl e \<Rightarrow> Inl e
      | Inr csz \<Rightarrow> multiset_pack cfg ms csz)"

definition hll_empty4 :: "settings \<Rightarrow> int \<Rightarrow> int \<Rightarrow> int \<Rightarrow> int \<Rightarrow> error + uint8_t list" where
  "hll_empty4 cfg log2m regwidth expthresh sparseon =
     (case check_modifiers log2m regwidth expthresh sparseon of
        Inl e \<Rightarrow> Inl e
      | Inr u \<Rightarrow> pack_result cfg (empty_multiset log2m regwidth expthresh sparseon))"

definition hll_empty0 :: "settings \<Rightarrow> error + uint8_t list" where
  "hll_empty0 cfg =
     hll_empty4 cfg DEFAULT_LOG2M DEFAULT_REGWIDTH DEFAULT_EXPTHRESH DEFAULT_SPARSEON"

definition hll_add :: "settings \<Rightarrow> uint8_t list \<Rightarrow> uint64_t \<Rightarrow> error + uint8_t list" where
  "hll_add cfg ab val =
     (case multiset_unpack ab of
        Inl e \<Rightarrow> Inl e
      | Inr msa \<Rightarrow>
          (case multiset_add msa val of
             Inl e \<Rightarrow> Inl e
           | Inr msa' \<Rightarrow> pack_result cfg msa'))"

definition hll_union :: "settings \<Rightarrow> uint8_t list \<Rightarrow> uint8_t list \<Rightarrow> error + uint8_t list" where
  "hll_union cfg ab bb =
     (case multiset_unpack ab of
        Inl e \<Rightarrow> Inl e
      | Inr msa \<Rightarrow>
          (case multiset_unpack bb of
             Inl e \<Rightarrow> Inl e
           | Inr msb \<Rightarrow>
               (case check_metadata msa msb of
                  Inl e \<Rightarrow> Inl e
                | Inr u \<Rightarrow>
                    (case multiset_union msa msb of
                       Inl e \<Rightarrow> Inl e
                     | Inr msa' \<Rightarrow> pack_result cfg msa'))))"

text \<open>\<^verbatim>\<open>hll_cardinality\<close>: the value \<open>-1.0\<close> becomes the SQL null, here \<open>None\<close>.\<close>

definition hll_cardinality :: "uint8_t list \<Rightarrow> error + real option" where
  "hll_cardinality ab =
     (case multiset_unpack ab of
        Inl e \<Rightarrow> Inl e
      | Inr ms \<Rightarrow>
          (case multiset_card ms of
             Inl e \<Rightarrow> Inl e
           | Inr retval \<Rightarrow> Inr (if retval = - 1.0 then None else Some retval)))"

text \<open>
  \<^verbatim>\<open>memcmp\<close> of the C library over the first \<open>n\<close> bytes: 0 when they agree, else the
  difference of the first two bytes that differ.
\<close>

fun memcmp :: "uint8_t list \<Rightarrow> uint8_t list \<Rightarrow> nat \<Rightarrow> int" where
  "memcmp (x # ap) (y # bp) (Suc n) =
     (if x = y then memcmp ap bp n else int (unat x) - int (unat y))"
| "memcmp ap bp n = 0"

definition hll_eq :: "uint8_t list \<Rightarrow> uint8_t list \<Rightarrow> bool" where
  "hll_eq ab bb =
     (let asz = length ab; bsz = length bb in
      if asz \<noteq> bsz then False
      else (let rv = memcmp ab bb asz in rv = 0))"

definition hll_ne :: "uint8_t list \<Rightarrow> uint8_t list \<Rightarrow> bool" where
  "hll_ne ab bb =
     (let asz = length ab; bsz = length bb in
      if asz \<noteq> bsz then True
      else (let rv = memcmp ab bb asz in rv \<noteq> 0))"

subsection \<open>Shapes of sketches\<close>

text \<open>The parameter fields of a sketch, the five fields that \<^verbatim>\<open>copy_metadata\<close> copies.\<close>

definition ms_meta :: "multiset_t \<Rightarrow> nat \<times> nat \<times> nat \<times> int \<times> bool" where
  "ms_meta ms = (ms_nbits ms, ms_nregs ms, ms_log2nregs ms, ms_expthresh ms, ms_sparseon ms)"

text \<open>
  Parameter fields as \<^verbatim>\<open>hll_empty4\<close> (after \<open>check_modifiers\<close>) and
  \<^verbatim>\<open>unpack_header\<close> set them: \<open>nregs = 1 << log2nregs\<close> with \<open>log2nregs\<close> of five
  bits, a register width of at most 8 and a threshold from -1 on. \<^verbatim>\<open>unpack_header\<close>
  yields a register width of at least 1.
\<close>

definition valid_meta :: "multiset_t \<Rightarrow> bool" where
  "valid_meta ms =
     (ms_nregs ms = 2 ^ ms_log2nregs ms \<and> ms_log2nregs ms \<le> 31 \<and>
      ms_nbits ms \<le> 8 \<and> - 1 \<le> ms_expthresh ms)"

definition unpacked_meta :: "multiset_t \<Rightarrow> bool" where
  "unpacked_meta ms = (valid_meta ms \<and> 1 \<le> ms_nbits ms)"

text \<open>The types that \<^verbatim>\<open>multiset_pack\<close> accepts.\<close>

definition packable :: "multiset_t \<Rightarrow> bool" where
  "packable ms = (ms_type ms = 0 \<or> ms_type ms = 1 \<or> ms_type ms = 2 \<or> ms_type ms = 4)"

subsection \<open>The sketch of a set of tokens\<close>

text \<open>
  Notions for the proofs about insertion. \<open>reg_idx\<close> and \<open>reg_val\<close> are the register
  index and the clamped value that \<open>compressed_add\<close> computes for a token;
  \<open>dense_regs\<close> is the register array in which every register holds the maximum of
  the values of the tokens of a set that fall on it. \<open>canon_list\<close> is the list of
  the tokens of a set in ascending signed order, and \<open>canon_state\<close> the sketch that
  holds a set of tokens: empty, explicit up to the capacity, dense beyond it.
\<close>

definition reg_idx :: "multiset_t \<Rightarrow> uint64_t \<Rightarrow> nat" where
  "reg_idx ms t = unat (t AND (of_nat (ms_nregs ms) - 1))"

definition reg_val :: "multiset_t \<Rightarrow> uint64_t \<Rightarrow> nat" where
  "reg_val ms t =
     (let ss_val = drop_bit (ms_log2nregs ms) t;
          p_w = (if ss_val = 0 then 0 else builtin_ctzll ss_val + 1)
      in if p_w > 2 ^ ms_nbits ms - 1 then 2 ^ ms_nbits ms - 1 else p_w)"

definition reg_max :: "multiset_t \<Rightarrow> uint64_t set \<Rightarrow> nat \<Rightarrow> nat" where
  "reg_max ms S i = Max (insert 0 (reg_val ms ` {t \<in> S. reg_idx ms t = i}))"

definition dense_regs :: "multiset_t \<Rightarrow> uint64_t set \<Rightarrow> uint8_t list" where
  "dense_regs ms S = map (\<lambda>i. of_nat (reg_max ms S i)) [0..<ms_nregs ms]"

definition canon_list :: "uint64_t set \<Rightarrow> uint64_t list" where
  "canon_list S = sort_key sint (sorted_list_of_set S)"

definition canon_state :: "multiset_t \<Rightarrow> uint64_t set \<Rightarrow> multiset_t" where
  "canon_state s0 S =
     (if S = {} then s0\<lparr>ms_data := MST_EMPTY\<rparr>
      else if card S \<le> expthresh_value (ms_expthresh s0) (ms_nbits s0) (ms_nregs s0)
      then s0\<lparr>ms_data := MST_EXPLICIT (canon_list S)\<rparr>
      else s0\<lparr>ms_data := MST_COMPRESSED (dense_regs s0 S)\<rparr>)"

subsection \<open>The frame selection in the words of the specification\<close>

text \<open>
  ``Write Sparse iff \<open>sparseon\<close> and
  \<open>(max_sparse \<noteq> -1 \<and> n_filled \<le> max_sparse) \<or> (max_sparse = -1 \<and> sparse_bits < dense_bits)\<close>'',
  with \<open>sparse_bits = n_filled * (log2m + regwidth)\<close> and \<open>dense_bits = m * regwidth\<close>.
  This definition follows the specification; the code has the condition twice, in
  \<open>multiset_pack\<close> and in \<open>multiset_packed_size\<close>.
\<close>

definition spec_sparse_frame :: "int \<Rightarrow> bool \<Rightarrow> nat \<Rightarrow> nat \<Rightarrow> nat \<Rightarrow> nat \<Rightarrow> bool" where
  "spec_sparse_frame max_sparse sparseon n_filled log2m regwidth m =
     (sparseon \<and>
      ((max_sparse \<noteq> - 1 \<and> int n_filled \<le> max_sparse) \<or>
       (max_sparse = - 1 \<and> n_filled * (log2m + regwidth) < m * regwidth)))"

subsection \<open>Example sketches\<close>

text \<open>
  The dense sketch of scenario S3: \<open>log2m = 4\<close>, \<open>regwidth = 5\<close>, \<open>expthresh = 0\<close>,
  sparse frames off, all 16 registers zero.
\<close>

definition dense_s3 :: multiset_t where
  "dense_s3 =
     \<lparr>ms_nbits = 5, ms_nregs = 16, ms_log2nregs = 4, ms_expthresh = 0,
      ms_sparseon = False, ms_data = MST_COMPRESSED (replicate 16 0)\<rparr>"

text \<open>
  A dense sketch with one non-zero register, as in scenario S6: \<open>log2m = 4\<close>,
  \<open>regwidth = 5\<close>, sparse frames on.
\<close>

definition dense_s6 :: multiset_t where
  "dense_s6 =
     \<lparr>ms_nbits = 5, ms_nregs = 16, ms_log2nregs = 4, ms_expthresh = 0,
      ms_sparseon = True, ms_data = MST_COMPRESSED (0 # 1 # replicate 14 0)\<rparr>"

text \<open>
  A dense sketch with \<open>log2m = 4\<close> and \<open>regwidth = 1\<close>, so that an index and a
  value take 5 bits, with the registers 0 and 1 set: the sketch after inserting the
  tokens 16 and 17 into the empty sketch with \<open>expthresh = 0\<close>.
\<close>

definition dense_small :: multiset_t where
  "dense_small =
     \<lparr>ms_nbits = 1, ms_nregs = 16, ms_log2nregs = 4, ms_expthresh = 0,
      ms_sparseon = True,
      ms_data = MST_COMPRESSED [1, 1, 0, 0, 0, 0, 0, 0, 0, 0, 0, 0, 0, 0, 0, 0]\<rparr>"

text \<open>
  A dense sketch with \<open>log2m = 4\<close> and \<open>regwidth = 2\<close> in which every register is 1:
  the sketch after inserting the tokens 16 to 31.
\<close>

definition dense_ones :: multiset_t where
  "dense_ones =
     \<lparr>ms_nbits = 2, ms_nregs = 16, ms_log2nregs = 4, ms_expthresh = 0,
      ms_sparseon = False,
      ms_data = MST_COMPRESSED [1, 1, 1, 1, 1, 1, 1, 1, 1, 1, 1, 1, 1, 1, 1, 1]\<rparr>"


section \<open>Properties\<close>

subsection \<open>Byte-wise comparison\<close>

lemma memcmp_eq_iff:
  "length ap = n \<Longrightarrow> length bp = n \<Longrightarrow> (memcmp ap bp n = 0) = (ap = bp)"
proof (induction ap bp n rule: memcmp.induct)
  case (1 x ap y bp n)
  then show ?case by (auto simp: word_uint_eq_iff)
qed auto

text \<open>
  Claim C10. \<^verbatim>\<open>hll_eq\<close> is true exactly when the two packed sketches have the same
  length and the same bytes, and \<^verbatim>\<open>hll_ne\<close> is its negation on the same inputs.
\<close>

theorem hll_eq_ne_bytes:
  "hll_eq ab bb = (length ab = length bb \<and> ab = bb) \<and> hll_ne ab bb = (\<not> hll_eq ab bb)"
  by (auto simp: hll_eq_def hll_ne_def Let_def memcmp_eq_iff)

subsection \<open>The empty sketch with the default parameters\<close>

lemmas empty_eval =
  hll_empty0_def hll_empty4_def check_modifiers_def pack_result_def
  multiset_packed_size_def multiset_pack_def empty_multiset_def pack_header_def
  encode_expthresh_def DEFAULT_LOG2M_def DEFAULT_REGWIDTH_def DEFAULT_EXPTHRESH_def
  DEFAULT_SPARSEON_def default_settings_def

lemmas unpack_eval =
  multiset_unpack_def byte_at_def unpack_header_def decode_expthresh_def Let_def

text \<open>
  Claim C6, as amended. Under output version 1 the empty sketch with the default
  parameters (\<open>log2m = 11\<close>, \<open>regwidth = 5\<close>, \<open>expthresh = -1\<close>, \<open>sparseon = 1\<close>) is
  encoded as the three bytes \<open>0x11 0x8B 0x7F\<close> and nothing else: the third byte is
  \<open>(sparseon << 6) | 63\<close>. Its cardinality is 0, both of the in-memory sketch and of
  the decoded frame.
\<close>

theorem empty_default_encoding:
  "hll_empty0 \<lparr>g_output_version = 1, g_max_sparse = max_sparse\<rparr> = Inr [0x11, 0x8B, 0x7F]
   \<and> multiset_unpack [0x11, 0x8B, 0x7F] = Inr (empty_multiset 11 5 (- 1) 1)
   \<and> multiset_card (empty_multiset 11 5 (- 1) 1) = Inr 0
   \<and> hll_cardinality [0x11, 0x8B, 0x7F] = Inr (Some 0)"
  by (simp add: empty_eval hll_cardinality_def unpack_eval multiset_card_def)

text \<open>The encoding is not \<open>0x11 0x8B 0x7E\<close>, as claim C6 has it.\<close>

theorem empty_default_encoding_counterexample:
  "hll_empty0 default_settings \<noteq> Inr [0x11, 0x8B, 0x7E]"
  by (simp add: empty_eval)

subsection \<open>Insertion into a dense sketch\<close>

lemma ctz_nat_dvd: "n \<noteq> 0 \<Longrightarrow> 2 ^ ctz_nat n dvd n \<and> \<not> 2 ^ Suc (ctz_nat n) dvd n"
proof (induction n rule: ctz_nat.induct)
  case (1 n)
  show ?case
  proof (cases "odd n")
    case True
    then show ?thesis by (simp add: ctz_nat.simps[of n])
  next
    case False
    then obtain k where k: "n = 2 * k" by (auto elim: evenE)
    with 1(2) have k0: "k \<noteq> 0" by simp
    from 1(1) False 1(2) k k0
    have ih: "2 ^ ctz_nat k dvd k \<and> \<not> 2 ^ Suc (ctz_nat k) dvd k"
      by simp
    have c: "ctz_nat (2 * k) = Suc (ctz_nat k)"
      using k0 by (simp add: ctz_nat.simps[of "2 * k"])
    from ih show ?thesis unfolding k c by simp
  qed
qed

lemma ctz_nat_less: "n \<noteq> 0 \<Longrightarrow> n < 2 ^ k \<Longrightarrow> ctz_nat n < k"
proof -
  assume n: "n \<noteq> 0" and lt: "n < 2 ^ k"
  from ctz_nat_dvd[OF n] have "2 ^ ctz_nat n \<le> n" using n by (auto intro: dvd_imp_le)
  from this lt have "(2::nat) ^ ctz_nat n < 2 ^ k" by (rule le_less_trans)
  then show ?thesis by (rule power_less_imp_less_exp[rotated]) simp
qed

lemma builtin_ctzll_less: "w \<noteq> 0 \<Longrightarrow> builtin_ctzll w < 64"
  unfolding builtin_ctzll_def
  by (rule ctz_nat_less) (use unsigned_less[of w, where ?'a = nat] in \<open>auto simp: unat_eq_0\<close>)

lemma token_index:
  "unat ((token :: 64 word) AND (of_nat (2 ^ l) - 1)) = unat token mod 2 ^ l"
proof -
  have "token AND (of_nat (2 ^ l) - 1) = take_bit l token"
    by (simp add: take_bit_eq_mask mask_eq_decr_exp)
  moreover have "unat (take_bit l token) = take_bit l (unat token)"
    by (rule unsigned_take_bit_eq)
  ultimately show ?thesis by (simp add: take_bit_eq_mod)
qed

text \<open>
  Claim C3. Let \<open>s\<close> be a dense sketch with \<open>m = 2 ^ log2m\<close> registers and \<open>token\<close> a
  64-bit token. With \<open>idx = token AND (m - 1)\<close>, \<open>w = token >> log2m\<close> and \<open>p\<close> equal to 0
  if \<open>w = 0\<close> and to the number of trailing zeros of \<open>w\<close> plus one otherwise, clamped to
  \<open>maxreg = 2 ^ regwidth - 1\<close>, the insertion replaces register \<open>idx\<close> by the maximum of
  its value and \<open>p\<close> and leaves every other register as it was.
\<close>

theorem compressed_add_register_update:
  fixes token :: uint64_t and s :: multiset_t
  assumes dense: "ms_data s = MST_COMPRESSED regs"
      and nregs: "ms_nregs s = 2 ^ ms_log2nregs s"
      and len: "length regs = ms_nregs s"
  shows "\<exists>regs'. multiset_add s token = Inr (s\<lparr>ms_data := MST_COMPRESSED regs'\<rparr>)
         \<and> length regs' = length regs
         \<and> unat (token AND (2 ^ ms_log2nregs s - 1)) < length regs
         \<and> unat (regs' ! unat (token AND (2 ^ ms_log2nregs s - 1))) =
           max (unat (regs ! unat (token AND (2 ^ ms_log2nregs s - 1))))
               (min (if drop_bit (ms_log2nregs s) token = 0 then 0
                     else builtin_ctzll (drop_bit (ms_log2nregs s) token) + 1)
                    (2 ^ ms_nbits s - 1))
         \<and> (\<forall>i < length regs. i \<noteq> unat (token AND (2 ^ ms_log2nregs s - 1))
                \<longrightarrow> regs' ! i = regs ! i)"
proof -
  define w where "w = drop_bit (ms_log2nregs s) token"
  define idx where "idx = unat (token AND (2 ^ ms_log2nregs s - 1))"
  define p where
    "p = min (if w = 0 then 0 else builtin_ctzll w + 1) (2 ^ ms_nbits s - 1 :: nat)"
  have idx: "idx < length regs"
    using token_index[of token "ms_log2nregs s"] by (simp add: idx_def len nregs)
  have p64: "p \<le> 64"
    using builtin_ctzll_less[of w] by (auto simp: p_def min_def)
  then have up: "unat (of_nat p :: uint8_t) = p"
    by (simp add: unat_of_nat)
  have step: "multiset_add s token =
      Inr (if unat (regs ! idx) < p
           then s\<lparr>ms_data := MST_COMPRESSED (regs[idx := of_nat p])\<rparr> else s)"
    by (simp add: multiset_add_def compressed_add_def dense nregs Let_def idx_def p_def
          w_def min_def)
  show ?thesis
  proof (cases "unat (regs ! idx) < p")
    case True
    with step idx up show ?thesis
      unfolding w_def[symmetric] idx_def[symmetric] p_def[symmetric]
      by (intro exI[of _ "regs[idx := of_nat p]"]) (simp add: max_def)
  next
    case False
    have "s\<lparr>ms_data := MST_COMPRESSED regs\<rparr> = s" using dense by (cases s) simp
    with False step idx show ?thesis
      unfolding w_def[symmetric] idx_def[symmetric] p_def[symmetric]
      by (intro exI[of _ regs]) (simp add: max_def)
  qed
qed

text \<open>
  The theorem at the second insertion of scenario S3: the token \<open>0x11\<close> into the
  sketch with 16 zero registers.
\<close>

theorem compressed_add_register_update_witness:
  "ms_data dense_s3 = MST_COMPRESSED (replicate 16 0)
   \<and> ms_nregs dense_s3 = 2 ^ ms_log2nregs dense_s3
   \<and> length (replicate 16 (0 :: uint8_t)) = ms_nregs dense_s3
   \<and> (\<exists>regs'. multiset_add dense_s3 0x11 = Inr (dense_s3\<lparr>ms_data := MST_COMPRESSED regs'\<rparr>)
        \<and> length regs' = 16 \<and> unat (regs' ! 1) = 1 \<and> regs' ! 0 = 0)"
proof -
  have a: "ms_data dense_s3 = MST_COMPRESSED (replicate 16 0)"
    and b: "ms_nregs dense_s3 = 2 ^ ms_log2nregs dense_s3"
    and c: "length (replicate 16 (0 :: uint8_t)) = ms_nregs dense_s3"
    by (simp_all add: dense_s3_def)
  have l: "ms_log2nregs dense_s3 = 4" and n: "ms_nbits dense_s3 = 5"
    by (simp_all add: dense_s3_def)
  have i: "unat ((0x11 :: uint64_t) AND (2 ^ 4 - 1)) = 1" by simp
  have w: "drop_bit 4 (0x11 :: uint64_t) = 1" by simp
  have z: "builtin_ctzll 1 = 0" by (simp add: builtin_ctzll_def ctz_nat.simps[of "Suc 0"])
  from compressed_add_register_update[OF a b c, of "0x11"]
  obtain regs' where
    "multiset_add dense_s3 0x11 = Inr (dense_s3\<lparr>ms_data := MST_COMPRESSED regs'\<rparr>)"
    "length regs' = 16" "unat (regs' ! 1) = 1" "regs' ! 0 = 0"
    unfolding l n i w z by auto
  with a b c show ?thesis by blast
qed

subsection \<open>Union of two packed sketches\<close>

lemma ms_meta_data_update [simp]: "ms_meta (s\<lparr>ms_data := d\<rparr>) = ms_meta s"
  by (simp add: ms_meta_def)

lemma ms_type_data_update [simp]: "ms_type (s\<lparr>ms_data := d\<rparr>) = type_code d"
  by (simp add: ms_type_def)


lemma compressed_add_meta [simp]: "ms_meta (compressed_add s e) = ms_meta s"
  by (simp add: compressed_add_def Let_def split: ms_data.splits)

lemma compressed_add_type [simp]: "ms_type (compressed_add s e) = ms_type s"
  by (simp add: compressed_add_def Let_def ms_type_def split: ms_data.splits)

lemma compressed_explicit_union_meta [simp]:
  "ms_meta (compressed_explicit_union s es) = ms_meta s"
  by (induction es arbitrary: s) simp_all

lemma compressed_explicit_union_type [simp]:
  "ms_type (compressed_explicit_union s es) = ms_type s"
  by (induction es arbitrary: s) simp_all

lemma explicit_to_compressed_meta [simp]: "ms_meta (explicit_to_compressed s) = ms_meta s"
  by (simp add: explicit_to_compressed_def split: ms_data.splits)


lemma explicit_union_loop_meta [simp]:
  "ms_meta (explicit_union_loop expval n s es) = ms_meta s"
  by (induction es arbitrary: s) (simp_all split: ms_data.splits)


lemma explicit_union_meta [simp]: "ms_meta (explicit_union s es) = ms_meta s"
  by (simp add: explicit_union_def Let_def split: ms_data.splits)


lemma packable_cases:
  "packable ms = (ms_data ms = MST_UNDEFINED \<or> ms_data ms = MST_EMPTY \<or>
     (\<exists>es. ms_data ms = MST_EXPLICIT es) \<or> (\<exists>rs. ms_data ms = MST_COMPRESSED rs))"
  by (cases "ms_data ms") (simp_all add: packable_def ms_type_def)



lemma unat_drop_bit5: "unat (drop_bit 5 (b :: uint8_t)) < 8"
proof -
  have "unat (drop_bit 5 b) = drop_bit 5 (unat b)"
    by (rule unat_drop_bit_eq)
  then have "unat (drop_bit 5 b) = unat b div 2 ^ 5"
    by (simp only: drop_bit_eq_div)
  moreover have "unat b < 256" using unsigned_less[of b, where ?'a = nat] by simp
  ultimately show ?thesis by simp
qed

lemma unat_and_1f: "unat ((b :: uint8_t) AND 0x1f) \<le> 31"
proof -
  have "b AND 0x1f = take_bit 5 b" by (simp add: take_bit_eq_mask mask_eq_decr_exp)
  moreover have "unat (take_bit 5 b) = take_bit 5 (unat b)"
    by (rule unsigned_take_bit_eq)
  ultimately have "unat (b AND 0x1f) = unat b mod 2 ^ 5"
    by (simp only: take_bit_eq_mod)
  moreover have "unat b mod 2 ^ 5 < 2 ^ 5" by simp
  ultimately show ?thesis by simp
qed

lemma decode_expthresh_ge: "- 1 \<le> decode_expthresh n"
proof -
  have "(- 1 :: int) \<le> 0" by simp
  also have "(0 :: int) \<le> 2 ^ (n - 1)" by simp
  finally show ?thesis by (simp add: decode_expthresh_def)
qed

lemma unpack_header_meta: "unpacked_meta (unpack_header bs d)"
  using unat_drop_bit5[of "byte_at bs 1"] unat_and_1f[of "byte_at bs 1"]
  by (simp add: unpack_header_def unpacked_meta_def valid_meta_def Let_def decode_expthresh_ge)

lemma unpack_header_data [simp]: "ms_data (unpack_header bs d) = d"
  by (simp add: unpack_header_def Let_def)



lemma multiset_unpack_shape:
  assumes "multiset_unpack ab = Inr ms"
  shows "\<exists>d. ms = unpack_header ab d \<and>
           (d = MST_EMPTY \<or> d = MST_UNDEFINED \<or> (\<exists>es. d = MST_EXPLICIT es)
            \<or> (\<exists>rs. d = MST_COMPRESSED rs))"
  using assms unfolding multiset_unpack_def Let_def
  by (simp split: if_splits sum.splits) blast+

lemma multiset_unpack_ok:
  assumes "multiset_unpack ab = Inr ms"
  shows "unpacked_meta ms \<and> packable ms"
  using multiset_unpack_shape[OF assms]
  by (auto simp: unpack_header_meta packable_cases)

lemma encode_expthresh_ok: "- 1 \<le> e \<Longrightarrow> \<exists>enc. encode_expthresh e = Inr enc"
  by (auto simp: encode_expthresh_def integer_log2_def)

lemma pack_header_ok:
  "- 1 \<le> e \<Longrightarrow> \<exists>hdr. pack_header v t nb l e sp = Inr hdr \<and> length hdr = 3"
  using encode_expthresh_ok[of e] by (auto simp: pack_header_def)

lemma numfilled_le: "numfilled ms \<le> ms_nregs ms"
proof (cases "ms_data ms")
  case (MST_COMPRESSED regs)
  have "length (filter (\<lambda>r. r > 0) (take (ms_nregs ms) regs)) \<le> length (take (ms_nregs ms) regs)"
    by (rule length_filter_le)
  then show ?thesis using MST_COMPRESSED by (simp add: numfilled_def)
qed (simp_all add: numfilled_def)

lemma size_sub_add: "k + 3 < 2 ^ 64 \<Longrightarrow> size_sub (3 + k) 3 = k"
  by (simp add: size_sub_def)

lemma body_size_checks:
  "\<not> ((bits + 7) div 8 * 8 < (bits :: nat)) \<and> \<not> (8 \<le> (bits + 7) div 8 * 8 - bits)"
  by arith




lemma check_metadata_iff:
  "(check_metadata a b = Inr ()) =
     (ms_nbits a = ms_nbits b \<and> ms_nregs a = ms_nregs b \<and>
      ms_expthresh a = ms_expthresh b \<and> ms_sparseon a = ms_sparseon b)"
  by (simp add: check_metadata_def)

lemma check_metadata_error:
  "check_metadata a b \<noteq> Inr () \<Longrightarrow> \<exists>msg. check_metadata a b = Inl (ERRCODE_DATA_EXCEPTION msg)"
  by (simp add: check_metadata_def split: if_splits)

lemma unpacked_nregs_eq_iff:
  assumes "unpacked_meta a" "unpacked_meta b"
  shows "(ms_nregs a = ms_nregs b) = (ms_log2nregs a = ms_log2nregs b)"
  using assms by (auto simp: unpacked_meta_def valid_meta_def)



text \<open>
  Claim C9. When the parameter fields of two decoded frames differ and one of the two
  sketches is undefined, \<^verbatim>\<open>hll_union\<close> still raises a data exception:
  \<open>check_metadata\<close> runs before \<open>multiset_union\<close>, whose first rule would have made
  the result undefined.
\<close>

theorem hll_union_undefined_mismatch:
  assumes a: "multiset_unpack ab = Inr msa" and b: "multiset_unpack bb = Inr msb"
      and u: "ms_data msa = MST_UNDEFINED \<or> ms_data msb = MST_UNDEFINED"
      and d: "ms_log2nregs msa \<noteq> ms_log2nregs msb \<or> ms_nbits msa \<noteq> ms_nbits msb \<or>
              ms_expthresh msa \<noteq> ms_expthresh msb \<or> ms_sparseon msa \<noteq> ms_sparseon msb"
  shows "(\<exists>msg. hll_union cfg ab bb = Inl (ERRCODE_DATA_EXCEPTION msg)) \<and>
         multiset_union msa msb = Inr (msa\<lparr>ms_data := MST_UNDEFINED\<rparr>)"
proof -
  from multiset_unpack_ok[OF a] have ma: "unpacked_meta msa" by simp
  from multiset_unpack_ok[OF b] have mb: "unpacked_meta msb" by simp
  from d unpacked_nregs_eq_iff[OF ma mb] have "check_metadata msa msb \<noteq> Inr ()"
    by (auto simp: check_metadata_iff)
  from check_metadata_error[OF this] obtain msg where
    "check_metadata msa msb = Inl (ERRCODE_DATA_EXCEPTION msg)" ..
  then have "hll_union cfg ab bb = Inl (ERRCODE_DATA_EXCEPTION msg)"
    by (simp add: hll_union_def a b)
  moreover from u have "multiset_union msa msb = Inr (msa\<lparr>ms_data := MST_UNDEFINED\<rparr>)"
    by (simp add: multiset_union_def)
  ultimately show ?thesis by blast
qed

text \<open>The theorem at an undefined frame with \<open>log2m = 11\<close> and an empty one with \<open>log2m = 10\<close>.\<close>

theorem hll_union_undefined_mismatch_witness:
  "multiset_unpack [0x10, 0x8B, 0x7F] = Inr ((empty_multiset 11 5 (- 1) 1)\<lparr>ms_data := MST_UNDEFINED\<rparr>)
   \<and> multiset_unpack [0x11, 0x8A, 0x7F] = Inr (empty_multiset 10 5 (- 1) 1)
   \<and> (\<exists>msg. hll_union default_settings [0x10, 0x8B, 0x7F] [0x11, 0x8A, 0x7F]
              = Inl (ERRCODE_DATA_EXCEPTION msg))
   \<and> multiset_union ((empty_multiset 11 5 (- 1) 1)\<lparr>ms_data := MST_UNDEFINED\<rparr>)
        (empty_multiset 10 5 (- 1) 1)
      = Inr ((empty_multiset 11 5 (- 1) 1)\<lparr>ms_data := MST_UNDEFINED\<rparr>)"
proof -
  have a: "multiset_unpack [0x10, 0x8B, 0x7F]
      = Inr ((empty_multiset 11 5 (- 1) 1)\<lparr>ms_data := MST_UNDEFINED\<rparr>)"
    by (simp add: unpack_eval empty_multiset_def)
  have b: "multiset_unpack [0x11, 0x8A, 0x7F] = Inr (empty_multiset 10 5 (- 1) 1)"
    by (simp add: unpack_eval empty_multiset_def)
  have u: "ms_data ((empty_multiset 11 5 (- 1) 1)\<lparr>ms_data := MST_UNDEFINED\<rparr>) = MST_UNDEFINED
      \<or> ms_data (empty_multiset 10 5 (- 1) 1) = MST_UNDEFINED" by simp
  have d: "ms_log2nregs ((empty_multiset 11 5 (- 1) 1)\<lparr>ms_data := MST_UNDEFINED\<rparr>)
        \<noteq> ms_log2nregs (empty_multiset 10 5 (- 1) 1)
      \<or> ms_nbits ((empty_multiset 11 5 (- 1) 1)\<lparr>ms_data := MST_UNDEFINED\<rparr>)
        \<noteq> ms_nbits (empty_multiset 10 5 (- 1) 1)
      \<or> ms_expthresh ((empty_multiset 11 5 (- 1) 1)\<lparr>ms_data := MST_UNDEFINED\<rparr>)
        \<noteq> ms_expthresh (empty_multiset 10 5 (- 1) 1)
      \<or> ms_sparseon ((empty_multiset 11 5 (- 1) 1)\<lparr>ms_data := MST_UNDEFINED\<rparr>)
        \<noteq> ms_sparseon (empty_multiset 10 5 (- 1) 1)"
    by (simp add: empty_multiset_def)
  from hll_union_undefined_mismatch[OF a b u d, of default_settings] a b show ?thesis by simp
qed

subsection \<open>Choice of the frame and packed size\<close>

lemma length_store_byte [simp]: "length (store_byte buf i b) = length buf"
  by (simp add: store_byte_def)

lemma length_store_qw [simp]: "length (store_qw buf p qw) = length buf"
  by (simp add: store_qw_def)

lemma length_bitstream_pack [simp]: "length (fst (bitstream_pack buf bwc val)) = length buf"
  by (simp add: bitstream_pack_def Let_def split: prod.splits)

lemma length_compressed_pack_loop [simp]:
  "length (compressed_pack_loop regs buf bwc) = length buf"
proof (induction regs arbitrary: buf bwc)
  case (Cons r regs)
  obtain buf' bwc' where b: "bitstream_pack buf bwc (ucast r) = (buf', bwc')" by force
  then have "length buf' = length buf" using length_bitstream_pack[of buf bwc "ucast r"] by simp
  with b Cons show ?case by simp
qed simp

lemma length_sparse_pack_loop [simp]:
  "length (sparse_pack_loop regs w ndx buf bwc) = length buf"
proof (induction regs arbitrary: ndx buf bwc)
  case (Cons r regs)
  obtain buf' bwc' where b:
    "bitstream_pack buf bwc (push_bit w (of_nat ndx) OR ucast r) = (buf', bwc')" by force
  then have "length buf' = length buf"
    using length_bitstream_pack[of buf bwc "push_bit w (of_nat ndx) OR ucast r"] by simp
  with b Cons show ?case by (simp add: Let_def)
qed simp

lemma pack_header_bytes:
  "- 1 \<le> e \<Longrightarrow> \<exists>b1 b2. pack_header v t nb l e sp = Inr [of_nat (push_bit 4 v OR t), b1, b2]"
  using encode_expthresh_ok[of e] by (auto simp: pack_header_def)

lemma encoded_type_hdr:
  "encoded_type ((of_nat (push_bit 4 1 OR t) :: uint8_t) # bs) = unat ((of_nat (push_bit 4 1 OR t) :: uint8_t) AND 0xf)"
  by (simp add: encoded_type_def byte_at_def)

lemma pack_compressed_frame:
  assumes c: "ms_data ms = MST_COMPRESSED rs" and m: "valid_meta ms"
      and v: "g_output_version cfg = 1"
      and sp: "sparse = (ms_sparseon ms \<and>
              ((g_max_sparse cfg \<noteq> - 1 \<and> int (numfilled ms) \<le> g_max_sparse cfg mod 2 ^ 64) \<or>
               (g_max_sparse cfg = - 1 \<and>
                numfilled ms * (ms_log2nregs ms + ms_nbits ms) < ms_nregs ms * ms_nbits ms)))"
      and sz: "csz = 3 + (if sparse then (numfilled ms * (ms_log2nregs ms + ms_nbits ms) + 7) div 8
                          else (ms_nregs ms * ms_nbits ms + 7) div 8)"
  shows "multiset_packed_size cfg ms = Inr csz \<and>
         (\<exists>cb. multiset_pack cfg ms csz = Inr cb \<and> length cb = csz \<and>
               encoded_type cb = (if sparse then 3 else 4))"
proof -
  let ?nb = "ms_nbits ms" and ?l = "ms_log2nregs ms" and ?n = "ms_nregs ms"
    and ?f = "numfilled ms"
  let ?sp = "(if ms_sparseon ms then 1 else 0) :: nat"
  from m have e: "- 1 \<le> ms_expthresh ms" by (simp add: valid_meta_def)
  from m have nb: "?nb \<le> 8" and l: "?l \<le> 31" and n: "?n = 2 ^ ?l"
    by (simp_all add: valid_meta_def)
  have "(2::nat) ^ ?l \<le> 2 ^ 31" using l by (intro power_increasing) simp_all
  then have n2: "?n \<le> 2147483648" using n by simp
  have f: "?f \<le> ?n" by (rule numfilled_le)
  have "?f * (?l + ?nb) \<le> 2147483648 * 39"
    using f n2 l nb by (intro mult_mono) simp_all
  then have s1: "(?f * (?l + ?nb) + 7) div 8 + 3 < 2 ^ 64" by simp
  have "?n * ?nb \<le> 2147483648 * 8" using n2 nb by (intro mult_mono) simp_all
  then have s2: "(?n * ?nb + 7) div 8 + 3 < 2 ^ 64" by simp
  show ?thesis
  proof (cases sparse)
    case True
    then have size: "multiset_packed_size cfg ms = Inr csz"
      using c sp sz by (auto simp: multiset_packed_size_def v Let_def)
    from pack_header_bytes[OF e, of 1 3 ?nb ?l ?sp] obtain b1 b2 where
      h: "pack_header 1 3 ?nb ?l (ms_expthresh ms) ?sp = Inr [of_nat (push_bit 4 1 OR 3), b1, b2]"
      by blast
    have "sparse_pack rs ?nb ?n ?l ?f ((?f * (?l + ?nb) + 7) div 8) =
        Inr (sparse_pack_loop (take ?n rs) ?nb 0 (replicate ((?f * (?l + ?nb) + 7) div 8) 0)
               \<lparr>bwc_nbits = ?l + ?nb, bwc_curp = 0, bwc_used = 0\<rparr>)"
      using body_size_checks[of "?f * (?l + ?nb)"] by (simp add: sparse_pack_def Let_def)
    then have "multiset_pack cfg ms csz =
        Inr ([of_nat (push_bit 4 1 OR 3), b1, b2] @
             sparse_pack_loop (take ?n rs) ?nb 0 (replicate ((?f * (?l + ?nb) + 7) div 8) 0)
               \<lparr>bwc_nbits = ?l + ?nb, bwc_curp = 0, bwc_used = 0\<rparr>)"
      using c True h size_sub_add[OF s1] sp sz
      by (auto simp: multiset_pack_def Let_def v)
    then show ?thesis using size True sz by (simp add: encoded_type_def byte_at_def)
  next
    case False
    then have size: "multiset_packed_size cfg ms = Inr csz"
      using c sp sz by (auto simp: multiset_packed_size_def v Let_def)
    from pack_header_bytes[OF e, of 1 4 ?nb ?l ?sp] obtain b1 b2 where
      h: "pack_header 1 4 ?nb ?l (ms_expthresh ms) ?sp = Inr [of_nat (push_bit 4 1 OR 4), b1, b2]"
      by blast
    have "compressed_pack rs ?nb ?n ((?n * ?nb + 7) div 8) =
        Inr (compressed_pack_loop (take ?n rs) (replicate ((?n * ?nb + 7) div 8) 0)
               \<lparr>bwc_nbits = ?nb, bwc_curp = 0, bwc_used = 0\<rparr>)"
      using body_size_checks[of "?n * ?nb"] by (simp add: compressed_pack_def Let_def mult.commute)
    then have "multiset_pack cfg ms csz =
        Inr ([of_nat (push_bit 4 1 OR 4), b1, b2] @
             compressed_pack_loop (take ?n rs) (replicate ((?n * ?nb + 7) div 8) 0)
               \<lparr>bwc_nbits = ?nb, bwc_curp = 0, bwc_used = 0\<rparr>)"
      using c False h size_sub_add[OF s2] sp sz
      by (auto simp: multiset_pack_def Let_def v)
    then show ?thesis using size False sz by (simp add: encoded_type_def byte_at_def)
  qed
qed

lemma code_sparse_eq_spec:
  assumes "- 1 \<le> g" "g < 2 ^ 31"
  shows "(sparseon \<and> ((g \<noteq> - 1 \<and> int f \<le> g mod 2 ^ 64) \<or> (g = - 1 \<and> f * (l + nb) < n * nb)))
         = spec_sparse_frame g sparseon f l nb n"
proof -
  have "g \<noteq> - 1 \<Longrightarrow> g mod 2 ^ 64 = g" using assms by simp
  then show ?thesis unfolding spec_sparse_frame_def by metis
qed

text \<open>
  Claim C5. Under output version 1 and a threshold \<open>max_sparse\<close> from -1 on, for every
  sketch that can be packed \<open>multiset_packed_size\<close> returns exactly the number of bytes
  that \<open>multiset_pack\<close> writes. For a dense sketch the frame is sparse (type 3) exactly
  if the condition of the specification holds, its size is then
  \<open>3 + \<lceil>n_filled * (log2m + regwidth) / 8\<rceil>\<close>; otherwise the frame is dense (type 4) and
  its size is \<open>3 + \<lceil>m * regwidth / 8\<rceil>\<close>.
\<close>

theorem pack_frame_choice_and_size:
  assumes v: "g_output_version cfg = 1"
      and g: "- 1 \<le> g_max_sparse cfg" "g_max_sparse cfg < 2 ^ 31"
      and p: "packable ms" and m: "valid_meta ms"
  shows "\<exists>csz cb. multiset_packed_size cfg ms = Inr csz \<and> multiset_pack cfg ms csz = Inr cb
           \<and> length cb = csz
           \<and> (case ms_data ms of
                MST_COMPRESSED regs \<Rightarrow>
                  if spec_sparse_frame (g_max_sparse cfg) (ms_sparseon ms) (numfilled ms)
                       (ms_log2nregs ms) (ms_nbits ms) (ms_nregs ms)
                  then encoded_type cb = 3 \<and>
                       csz = 3 + (numfilled ms * (ms_log2nregs ms + ms_nbits ms) + 7) div 8
                  else encoded_type cb = 4 \<and>
                       csz = 3 + (ms_nregs ms * ms_nbits ms + 7) div 8
              | MST_EXPLICIT elems \<Rightarrow> csz = 3 + 8 * length elems
              | _ \<Rightarrow> csz = 3)"
proof -
  from m have e: "- 1 \<le> ms_expthresh ms" by (simp add: valid_meta_def)
  let ?sp = "(if ms_sparseon ms then 1 else 0) :: nat"
  have hdr: "\<exists>hdr. pack_header 1 t (ms_nbits ms) (ms_log2nregs ms) (ms_expthresh ms) ?sp = Inr hdr
                 \<and> length hdr = 3" for t
    using pack_header_ok[OF e] by blast
  from p consider (u) "ms_data ms = MST_UNDEFINED" | (e) "ms_data ms = MST_EMPTY"
    | (x) es where "ms_data ms = MST_EXPLICIT es" | (c) rs where "ms_data ms = MST_COMPRESSED rs"
    unfolding packable_cases by blast
  then show ?thesis
  proof cases
    case u
    then show ?thesis using hdr[of 0]
      by (auto simp: multiset_packed_size_def multiset_pack_def v Let_def)
  next
    case e
    then show ?thesis using hdr[of 1]
      by (auto simp: multiset_packed_size_def multiset_pack_def v Let_def)
  next
    case x
    have len: "length (pack_elements es) = 8 * length es"
      by (induction es) (simp_all add: pack_element_def)
    from hdr[of 2] obtain h where
      "pack_header 1 2 (ms_nbits ms) (ms_log2nregs ms) (ms_expthresh ms) ?sp = Inr h" "length h = 3"
      by blast
    with x len show ?thesis
      by (auto simp: multiset_packed_size_def multiset_pack_def v Let_def)
  next
    case c
    define sparse where "sparse = spec_sparse_frame (g_max_sparse cfg) (ms_sparseon ms) (numfilled ms)
                       (ms_log2nregs ms) (ms_nbits ms) (ms_nregs ms)"
    define csz where "csz = 3 + (if sparse then (numfilled ms * (ms_log2nregs ms + ms_nbits ms) + 7) div 8
                          else (ms_nregs ms * ms_nbits ms + 7) div 8)"
    note sp = code_sparse_eq_spec[OF g, of "ms_sparseon ms" "numfilled ms" "ms_log2nregs ms"
        "ms_nbits ms" "ms_nregs ms", folded sparse_def, symmetric]
    from pack_compressed_frame[OF c m v sp csz_def] obtain cb where
      "multiset_packed_size cfg ms = Inr csz" "multiset_pack cfg ms csz = Inr cb"
      "length cb = csz" "encoded_type cb = (if sparse then 3 else 4)" by blast
    then show ?thesis using c unfolding sparse_def[symmetric]
      by (intro exI[of _ csz] exI[of _ cb]) (simp add: csz_def)
  qed
qed


text \<open>The theorem at a dense sketch with one filled register: a sparse frame of 5 bytes.\<close>

theorem pack_frame_choice_and_size_witness:
  "g_output_version default_settings = 1
   \<and> - 1 \<le> g_max_sparse default_settings \<and> g_max_sparse default_settings < 2 ^ 31
   \<and> packable dense_s6 \<and> valid_meta dense_s6
   \<and> (\<exists>csz cb. multiset_packed_size default_settings dense_s6 = Inr csz
         \<and> multiset_pack default_settings dense_s6 csz = Inr cb
         \<and> length cb = csz \<and> encoded_type cb = 3 \<and> csz = 5)"
proof -
  have v: "g_output_version default_settings = 1"
    and g: "- 1 \<le> g_max_sparse default_settings" "g_max_sparse default_settings < 2 ^ 31"
    by (simp_all add: default_settings_def)
  have p: "packable dense_s6" by (simp add: packable_def ms_type_def dense_s6_def)
  have m: "valid_meta dense_s6" by (simp add: valid_meta_def dense_s6_def)
  have f: "numfilled dense_s6 = 1" by (simp add: numfilled_def dense_s6_def)
  have d: "ms_data dense_s6 = MST_COMPRESSED (0 # 1 # replicate 14 0)"
    "ms_sparseon dense_s6" "ms_log2nregs dense_s6 = 4" "ms_nbits dense_s6 = 5"
    "ms_nregs dense_s6 = 16" "g_max_sparse default_settings = - 1"
    by (simp_all add: dense_s6_def default_settings_def)
  from pack_frame_choice_and_size[OF v g p m]
  have "\<exists>csz cb. multiset_packed_size default_settings dense_s6 = Inr csz
         \<and> multiset_pack default_settings dense_s6 csz = Inr cb
         \<and> length cb = csz \<and> encoded_type cb = 3 \<and> csz = 5"
    by (simp add: spec_sparse_frame_def d f)
  with v g p m show ?thesis by blast
qed

subsection \<open>Binary search in a sorted explicit list\<close>





subsection \<open>The capacity of explicit sketches\<close>

lemma multiset_add_meta: "multiset_add s x = Inr s' \<Longrightarrow> ms_meta s' = ms_meta s"
  by (auto simp: multiset_add_def Let_def split: ms_data.splits if_splits)

lemma multiset_add_all_meta: "multiset_add_all s xs = Inr s' \<Longrightarrow> ms_meta s' = ms_meta s"
proof (induction xs arbitrary: s)
  case (Cons x xs)
  then show ?case by (auto split: sum.splits dest: multiset_add_meta)
qed simp


lemma length_qsort [simp]: "length (qsort es) = length es"
  by (simp add: qsort_def)







subsection \<open>Insertion does not depend on the order of the tokens\<close>

lemma reg_idx_data [simp]: "reg_idx (s\<lparr>ms_data := d\<rparr>) = reg_idx s"
  by (simp add: reg_idx_def fun_eq_iff)

lemma reg_val_data [simp]: "reg_val (s\<lparr>ms_data := d\<rparr>) = reg_val s"
  by (simp add: reg_val_def fun_eq_iff Let_def)

lemma reg_max_data [simp]: "reg_max (s\<lparr>ms_data := d\<rparr>) = reg_max s"
  by (simp add: reg_max_def fun_eq_iff)

lemma dense_regs_data [simp]: "dense_regs (s\<lparr>ms_data := d\<rparr>) = dense_regs s"
  by (simp add: dense_regs_def fun_eq_iff)





lemma reg_max_empty [simp]: "reg_max s {} i = 0"
  by (simp add: reg_max_def)



lemma unat_reg [simp]: "n \<le> 64 \<Longrightarrow> unat (of_nat n :: uint8_t) = n"
  by (simp add: unat_of_nat)

lemma length_dense_regs [simp]: "length (dense_regs s S) = ms_nregs s"
  by (simp add: dense_regs_def)














lemma canon_state_meta [simp]: "ms_meta (canon_state s0 S) = ms_meta s0"
  by (simp add: canon_state_def)






subsection \<open>Evaluating the bit stream on concrete buffers\<close>

lemma normalize_cursor_eq: "normalize_cursor curp used = (curp + used div 8, used mod 8)"
proof (induction curp used rule: normalize_cursor.induct)
  case (1 curp used)
  show ?case
  proof (cases "8 \<le> used")
    case True
    then have "normalize_cursor curp used = normalize_cursor (curp + 1) (used - 8)"
      by (subst normalize_cursor.simps) simp
    also have "\<dots> = (curp + 1 + (used - 8) div 8, (used - 8) mod 8)" using 1 True by simp
    also have "\<dots> = (curp + used div 8, used mod 8)"
      using True by (simp add: le_div_geq le_mod_geq)
    finally show ?thesis .
  next
    case False
    then show ?thesis by (subst normalize_cursor.simps) simp
  qed
qed

subsection \<open>A sparse frame whose chunks are shorter than a byte\<close>

lemma numfilled_dense_small: "numfilled dense_small = 2"
  by (simp add: numfilled_def dense_small_def)

lemma packed_size_dense_small: "multiset_packed_size default_settings dense_small = Inr 5"
  by (simp add: multiset_packed_size_def default_settings_def Let_def dense_small_def
        numfilled_def)

lemmas bitstream_eval = bitstream_pack_def bitstream_unpack_def load_qw_def store_qw_def
  store_byte_def byte_at_def normalize_cursor_eq Let_def

lemma bitstream_pack_small_1: "bitstream_pack [0, 0] \<lparr>bwc_nbits = 5, bwc_curp = 0, bwc_used = 0\<rparr> 1
    = ([8, 0], \<lparr>bwc_nbits = 5, bwc_curp = 0, bwc_used = 5\<rparr>)"
  by (simp add: bitstream_eval)

lemma bitstream_pack_small_2: "bitstream_pack [8, 0] \<lparr>bwc_nbits = 5, bwc_curp = 0, bwc_used = 5\<rparr> 3
    = ([8, 0xC0], \<lparr>bwc_nbits = 5, bwc_curp = 1, bwc_used = 2\<rparr>)"
  by (simp add: bitstream_eval)

lemma sparse_pack_loop_Cons:
  "sparse_pack_loop (r # rs) w ndx buf bwc =
     (if r \<noteq> 0
      then sparse_pack_loop rs w (ndx + 1)
             (fst (bitstream_pack buf bwc (push_bit w (of_nat ndx) OR ucast r)))
             (snd (bitstream_pack buf bwc (push_bit w (of_nat ndx) OR ucast r)))
      else sparse_pack_loop rs w (ndx + 1) buf bwc)"
  by (simp add: Let_def split_def)

lemma compressed_pack_loop_Cons:
  "compressed_pack_loop (r # rs) buf bwc =
     compressed_pack_loop rs (fst (bitstream_pack buf bwc (ucast r)))
       (snd (bitstream_pack buf bwc (ucast r)))"
  by (simp add: split_def Let_def)

lemma multiset_pack_dense_small: "multiset_pack default_settings dense_small 5 = Inr [0x13, 0x04, 0x40, 0x08, 0xC0]"
proof -
  have r: "replicate 2 (0 :: uint8_t) = [0, 0]" by (simp add: numeral_2_eq_2)
  have s: "size_sub 5 3 = 2" by (simp add: size_sub_def)
  have h: "pack_header 1 3 1 4 0 1 = Inr [0x13, 0x04, 0x40]"
    by (simp add: pack_header_def encode_expthresh_def)
  have l: "sparse_pack_loop [1, 1, 0, 0, 0, 0, 0, 0, 0, 0, 0, 0, 0, 0, 0, 0] 1 0 [0, 0]
     \<lparr>bwc_nbits = 5, bwc_curp = 0, bwc_used = 0\<rparr> = [8, 0xC0]"
    by (simp add: sparse_pack_loop_Cons bitstream_pack_small_1 bitstream_pack_small_2 del: sparse_pack_loop.simps(2))
  have k: "sparse_pack [1, 1, 0, 0, 0, 0, 0, 0, 0, 0, 0, 0, 0, 0, 0, 0] 1 16 4 2 2 = Inr [8, 0xC0]"
    using l by (simp add: sparse_pack_def r del: sparse_pack_loop.simps)
  have n: "numfilled dense_small = 2" by (rule numfilled_dense_small)
  show ?thesis
    using k h n s
    by (simp add: multiset_pack_def default_settings_def Let_def)
       (simp add: dense_small_def)
qed

lemma sparse_unpack_loop_Suc:
  "sparse_unpack_loop buf i_width regmask (Suc n) brc i_regp =
     sparse_unpack_loop buf i_width regmask n (snd (bitstream_unpack buf brc))
       (i_regp[unat (drop_bit i_width (fst (bitstream_unpack buf brc))) :=
                 ucast (fst (bitstream_unpack buf brc) AND regmask)])"
  by (simp add: Let_def split_def)

lemma sparse_unpack_loop_numeral:
  "sparse_unpack_loop buf i_width regmask (numeral k) brc i_regp =
     sparse_unpack_loop buf i_width regmask (pred_numeral k) (snd (bitstream_unpack buf brc))
       (i_regp[unat (drop_bit i_width (fst (bitstream_unpack buf brc))) :=
                 ucast (fst (bitstream_unpack buf brc) AND regmask)])"
  by (simp add: numeral_eq_Suc Let_def split_def)

lemma compressed_unpack_loop_Suc:
  "compressed_unpack_loop buf (Suc n) brc =
     ucast (fst (bitstream_unpack buf brc)) #
       compressed_unpack_loop buf n (snd (bitstream_unpack buf brc))"
  by (simp add: split_def Let_def)

lemma compressed_unpack_loop_numeral:
  "compressed_unpack_loop buf (numeral k) brc =
     ucast (fst (bitstream_unpack buf brc)) #
       compressed_unpack_loop buf (pred_numeral k) (snd (bitstream_unpack buf brc))"
  by (simp add: numeral_eq_Suc split_def Let_def)



lemma bitstream_unpack_small_1: "bitstream_unpack [8, 0xC0] \<lparr>brc_nbits = 5, brc_mask = 31, brc_curp = 0, brc_used = 0\<rparr>
    = (1, \<lparr>brc_nbits = 5, brc_mask = 31, brc_curp = 0, brc_used = 5\<rparr>)"
  by (simp add: bitstream_eval)

lemma bitstream_unpack_small_2: "bitstream_unpack [8, 0xC0] \<lparr>brc_nbits = 5, brc_mask = 31, brc_curp = 0, brc_used = 5\<rparr>
    = (3, \<lparr>brc_nbits = 5, brc_mask = 31, brc_curp = Suc 0, brc_used = 2\<rparr>)"
  by (simp add: bitstream_eval)

lemma bitstream_unpack_small_3: "bitstream_unpack [8, 0xC0] \<lparr>brc_nbits = 5, brc_mask = 31, brc_curp = Suc 0, brc_used = 2\<rparr>
    = (0, \<lparr>brc_nbits = 5, brc_mask = 31, brc_curp = Suc 0, brc_used = 7\<rparr>)"
  by (simp add: bitstream_eval)

lemma multiset_unpack_dense_small: "multiset_unpack [0x13, 0x04, 0x40, 0x08, 0xC0]
   = Inr (dense_small\<lparr>ms_data := MST_COMPRESSED [0, 1, 0, 0, 0, 0, 0, 0, 0, 0, 0, 0, 0, 0, 0, 0]\<rparr>)"
proof -
  have r: "replicate 16 (0 :: uint8_t) = [0, 0, 0, 0, 0, 0, 0, 0, 0, 0, 0, 0, 0, 0, 0, 0]"
    by (simp add: numeral_eq_Suc)
  have l: "sparse_unpack_loop [8, 0xC0] 1 1 3
     \<lparr>brc_nbits = 5, brc_mask = 31, brc_curp = 0, brc_used = 0\<rparr>
     [0, 0, 0, 0, 0, 0, 0, 0, 0, 0, 0, 0, 0, 0, 0, 0]
   = [0, 1, 0, 0, 0, 0, 0, 0, 0, 0, 0, 0, 0, 0, 0, 0]"
    by (simp add: sparse_unpack_loop_numeral sparse_unpack_loop_Suc bitstream_unpack_small_1 bitstream_unpack_small_2 bitstream_unpack_small_3
          del: sparse_unpack_loop.simps(2))
  have k: "sparse_unpack (replicate 16 0) 1 4 3 [8, 0xC0] (Suc (Suc 0))
      = Inr [0, 1, 0, 0, 0, 0, 0, 0, 0, 0, 0, 0, 0, 0, 0, 0]"
    using l by (simp add: sparse_unpack_def size_sub_def r del: sparse_unpack_loop.simps)
  have h: "unpack_header [0x13, 0x04, 0x40, 0x08, 0xC0] d = dense_small\<lparr>ms_data := d\<rparr>" for d
    by (simp add: unpack_header_def byte_at_def decode_expthresh_def dense_small_def)
  show ?thesis
    using k
    by (simp add: multiset_unpack_def byte_at_def MS_MAXDATA_def h Let_def)
qed

lemma multiset_add_all_dense_small: "multiset_add_all (empty_multiset 4 1 0 1) [16, 17] = Inr dense_small"
proof -
  have r: "replicate 16 (0 :: uint8_t) = [0, 0, 0, 0, 0, 0, 0, 0, 0, 0, 0, 0, 0, 0, 0, 0]"
    by (simp add: numeral_eq_Suc)
  have z: "builtin_ctzll 1 = 0" by (simp add: builtin_ctzll_def ctz_nat.simps[of "Suc 0"])
  show ?thesis
    by (simp add: multiset_add_def expthresh_value_def empty_multiset_def
          explicit_to_compressed_def compressed_add_def r z Let_def dense_small_def)
qed

lemma multiset_card_dense_small: "multiset_card dense_small = Inr (16 * ln (16 / 14))"
proof -
  have l: "card_loop [1, 1, 0, 0, 0, 0, 0, 0, 0, 0, 0, 0, 0, 0, 0, 0] 0 0 = (15, 14)"
    by (simp add: Let_def)
  have g: "gamma_register_count_squared 16 = Inr 172.288"
    by (simp add: gamma_register_count_squared_def)
  show ?thesis using l g
    by (simp add: multiset_card_def dense_small_def Let_def)
qed

lemma multiset_card_dense_small_decoded:
  "multiset_card (dense_small\<lparr>ms_data := MST_COMPRESSED [0, 1, 0, 0, 0, 0, 0, 0, 0, 0, 0, 0, 0, 0, 0, 0]\<rparr>)
     = Inr (16 * ln (16 / 15))"
proof -
  have l: "card_loop [0, 1, 0, 0, 0, 0, 0, 0, 0, 0, 0, 0, 0, 0, 0, 0] 0 0 = (15.5, 15)"
    by (simp add: Let_def)
  have g: "gamma_register_count_squared 16 = Inr 172.288"
    by (simp add: gamma_register_count_squared_def)
  show ?thesis using l g
    by (simp add: multiset_card_def dense_small_def Let_def)
qed

lemma pack_result_dense_small: "pack_result default_settings dense_small = Inr [0x13, 0x04, 0x40, 0x08, 0xC0]"
  by (simp add: pack_result_def packed_size_dense_small multiset_pack_dense_small)

lemma pack_header_regwidth_0: "pack_header 1 1 0 11 (- 1) 1 = Inr [0x11, 0xEB, 0x7F]"
proof -
  have m: "(of_nat 0 - 1 :: uint64_t) = 0xFFFFFFFFFFFFFFFF" by simp
  have b: "(ucast (push_bit 5 (0xFFFFFFFFFFFFFFFF :: uint64_t) OR of_nat 11) :: uint8_t) = 0xEB"
    by simp
  show ?thesis unfolding pack_header_def m b by (simp add: encode_expthresh_def)
qed

lemma hll_empty4_regwidth_0: "hll_empty4 default_settings 11 0 (- 1) 1 = Inr [0x11, 0xEB, 0x7F]"
  using pack_header_regwidth_0
  by (simp add: hll_empty4_def check_modifiers_def pack_result_def multiset_packed_size_def
        multiset_pack_def empty_multiset_def default_settings_def)

lemma multiset_unpack_regwidth_0: "multiset_unpack [0x11, 0xEB, 0x7F] = Inr ((empty_multiset 11 0 (- 1) 1)\<lparr>ms_nbits := 8\<rparr>)"
  by (simp add: unpack_eval empty_multiset_def)

text \<open>
  Claim C1 fails on the code in two ways.
  \<^item> A register width of 0 passes \<open>check_modifiers\<close>, but the header stores
    \<open>regwidth - 1\<close> in three bits: the empty sketch with \<open>regwidth = 0\<close> is encoded
    with the byte \<open>0xEB\<close> and decoded with a register width of 8.
  \<^item> \<open>multiset_unpack\<close> derives the number of chunks of a sparse frame from its length
    (``we depend on the log2nregs + nbits being greater then the pad size''). With
    \<open>log2m + regwidth < 8\<close> the padding can hold a whole chunk: the two registers of
    \<open>dense_small\<close> are written as two chunks of 5 bits in two bytes, three chunks are
    read back, and the third, all zero, clears register 0. The cardinality changes
    from \<open>16 ln (16 / 14)\<close> to \<open>16 ln (16 / 15)\<close>.
\<close>

theorem pack_unpack_not_identity:
  "check_modifiers 11 0 (- 1) 1 = Inr ()
   \<and> hll_empty4 default_settings 11 0 (- 1) 1 = Inr [0x11, 0xEB, 0x7F]
   \<and> multiset_unpack [0x11, 0xEB, 0x7F] = Inr ((empty_multiset 11 0 (- 1) 1)\<lparr>ms_nbits := 8\<rparr>)
   \<and> ms_nbits (empty_multiset 11 0 (- 1) 1) = 0
   \<and> check_modifiers 4 1 0 1 = Inr ()
   \<and> multiset_add_all (empty_multiset 4 1 0 1) [16, 17] = Inr dense_small
   \<and> pack_result default_settings dense_small = Inr [0x13, 0x04, 0x40, 0x08, 0xC0]
   \<and> multiset_unpack [0x13, 0x04, 0x40, 0x08, 0xC0]
       = Inr (dense_small\<lparr>ms_data := MST_COMPRESSED [0, 1, 0, 0, 0, 0, 0, 0, 0, 0, 0, 0, 0, 0, 0, 0]\<rparr>)
   \<and> ms_data dense_small = MST_COMPRESSED [1, 1, 0, 0, 0, 0, 0, 0, 0, 0, 0, 0, 0, 0, 0, 0]
   \<and> multiset_card dense_small = Inr (16 * ln (16 / 14))
   \<and> multiset_card (dense_small\<lparr>ms_data := MST_COMPRESSED [0, 1, 0, 0, 0, 0, 0, 0, 0, 0, 0, 0, 0, 0, 0, 0]\<rparr>)
       = Inr (16 * ln (16 / 15))
   \<and> 16 * ln (16 / 15) < 16 * ln (16 / 14 :: real)"
proof -
  have c0: "check_modifiers 11 0 (- 1) 1 = Inr ()" by (simp add: check_modifiers_def)
  have c1: "check_modifiers 4 1 0 1 = Inr ()" by (simp add: check_modifiers_def)
  have n: "ms_nbits (empty_multiset 11 0 (- 1) 1) = 0" by (simp add: empty_multiset_def)
  have d: "ms_data dense_small = MST_COMPRESSED [1, 1, 0, 0, 0, 0, 0, 0, 0, 0, 0, 0, 0, 0, 0, 0]"
    by (simp add: dense_small_def)
  have lt: "16 * ln (16 / 15) < 16 * ln (16 / 14 :: real)" by simp
  from c0 hll_empty4_regwidth_0 multiset_unpack_regwidth_0 n c1 multiset_add_all_dense_small pack_result_dense_small multiset_unpack_dense_small d multiset_card_dense_small multiset_card_dense_small_decoded lt
  show ?thesis by blast
qed

subsection \<open>The large range correction of the estimator\<close>

lemma compressed_unpack_loop_ones: "compressed_unpack_loop [0x55, 0x55, 0x55, 0x55] 16
     \<lparr>brc_nbits = 2, brc_mask = 3, brc_curp = 0, brc_used = 0\<rparr>
   = [1, 1, 1, 1, 1, 1, 1, 1, 1, 1, 1, 1, 1, 1, 1, 1]"
  by (simp add: compressed_unpack_loop_numeral compressed_unpack_loop_Suc bitstream_eval
        del: compressed_unpack_loop.simps(2))

lemma compressed_unpack_ones: "compressed_unpack 2 16 [0x55, 0x55, 0x55, 0x55] 4
   = Inr [1, 1, 1, 1, 1, 1, 1, 1, 1, 1, 1, 1, 1, 1, 1, 1]"
  using compressed_unpack_loop_ones by (simp add: compressed_unpack_def del: compressed_unpack_loop.simps)

lemma multiset_unpack_dense_ones: "multiset_unpack [0x14, 0x24, 0x00, 0x55, 0x55, 0x55, 0x55] = Inr dense_ones"
proof -
  have h: "unpack_header [0x14, 0x24, 0x00, 0x55, 0x55, 0x55, 0x55] d = dense_ones\<lparr>ms_data := d\<rparr>" for d
    by (simp add: unpack_header_def byte_at_def decode_expthresh_def dense_ones_def)
  have a: "unat (drop_bit 5 (0x24 :: uint8_t)) + 1 = 2" by simp
  have b: "size_sub (length [0x14, 0x24, 0x00, 0x55, 0x55, 0x55, 0x55 :: uint8_t]) 3 = 4"
    by (simp add: size_sub_def)
  have k: "compressed_unpack (unat (drop_bit 5 (0x24 :: uint8_t)) + 1) 16 [0x55, 0x55, 0x55, 0x55]
             (size_sub (length [0x14, 0x24, 0x00, 0x55, 0x55, 0x55, 0x55 :: uint8_t]) 3)
           = Inr [1, 1, 1, 1, 1, 1, 1, 1, 1, 1, 1, 1, 1, 1, 1, 1]"
    by (simp only: a b compressed_unpack_ones)
  show ?thesis using k b
    by (simp add: multiset_unpack_def byte_at_def MS_MAXDATA_def h Let_def)
       (simp add: dense_ones_def)
qed

lemma multiset_card_dense_ones:
  "multiset_card dense_ones = Inr (18446744073709551552 * ln (1 - 21.536 / 64))"
proof -
  have l: "card_loop [1, 1, 1, 1, 1, 1, 1, 1, 1, 1, 1, 1, 1, 1, 1, 1] 0 0 = (8, 0)"
    by (simp add: Let_def)
  have g: "gamma_register_count_squared 16 = Inr 172.288"
    by (simp add: gamma_register_count_squared_def)
  show ?thesis using l g
    by (simp add: multiset_card_def dense_ones_def Let_def)
qed

lemma large_range_value_negative: "18446744073709551552 * ln (1 - 21.536 / 64) < (- 1 :: real)"
proof -
  have "ln (1 - 21.536 / 64 :: real) \<le> (1 - 21.536 / 64) - 1"
    by (rule ln_le_minus_one) simp
  then have "ln (1 - 21.536 / 64 :: real) \<le> - (1 / 4)" by simp
  then have "18446744073709551552 * ln (1 - 21.536 / 64 :: real) \<le> 18446744073709551552 * - (1 / 4)"
    by (intro mult_left_mono) simp_all
  then show ?thesis by simp
qed

lemma large_range_formula_positive: "0 < - (2 ^ 6) * ln (1 - 21.536 / 64 :: real)"
proof -
  have "ln (1 - 21.536 / 64 :: real) < 0" by (rule ln_less_zero) simp_all
  then show ?thesis by simp
qed

lemma multiset_add_all_dense_ones:
  "multiset_add_all (empty_multiset 4 2 0 0)
     [16, 17, 18, 19, 20, 21, 22, 23, 24, 25, 26, 27, 28, 29, 30, 31] = Inr dense_ones"
proof -
  have r: "replicate 16 (0 :: uint8_t) = [0, 0, 0, 0, 0, 0, 0, 0, 0, 0, 0, 0, 0, 0, 0, 0]"
    by (simp add: numeral_eq_Suc)
  have z: "builtin_ctzll 1 = 0" by (simp add: builtin_ctzll_def ctz_nat.simps[of "Suc 0"])
  show ?thesis
    by (simp add: multiset_add_def expthresh_value_def empty_multiset_def
          explicit_to_compressed_def compressed_add_def r z Let_def dense_ones_def)
qed

text \<open>The estimator raises its error exactly for at most 8 registers.\<close>

lemma multiset_card_error_iff:
  assumes "ms_data s = MST_COMPRESSED regs"
  shows "(\<exists>e. multiset_card s = Inl e) = (ms_nregs s \<le> 8)"
  using assms
  by (auto simp: multiset_card_def gamma_register_count_squared_def Let_def
           split: prod.splits)

text \<open>
  Claim C4 fails on the code in the large range. In
  \<^verbatim>\<open>(-1 * two_to_l) * log(1.0 - (estimator/two_to_l))\<close> the product \<^verbatim>\<open>-1 * two_to_l\<close>
  is computed in \<^verbatim>\<open>uint64\<close> and is \<open>2 ^ 64 - 2 ^ L\<close>, not \<open>- 2 ^ L\<close>. For the dense
  sketch with \<open>m = 16\<close>, \<open>regwidth = 2\<close> and all registers 1 the raw estimate is
  \<open>E = 0.673 * 16\<^sup>2 / 8 = 21.536\<close>, no register is zero, \<open>L = 6\<close> and
  \<open>E > 2 ^ L / 30\<close>: the claim gives \<open>- 2 ^ 6 * ln (1 - E / 2 ^ 6)\<close>, a positive number,
  the code returns \<open>(2 ^ 64 - 2 ^ 6) * ln (1 - E / 2 ^ 6)\<close>, a negative one.
\<close>

theorem multiset_card_large_range:
  "multiset_add_all (empty_multiset 4 2 0 0)
     [16, 17, 18, 19, 20, 21, 22, 23, 24, 25, 26, 27, 28, 29, 30, 31] = Inr dense_ones
   \<and> multiset_unpack [0x14, 0x24, 0x00, 0x55, 0x55, 0x55, 0x55] = Inr dense_ones
   \<and> multiset_card dense_ones = Inr (18446744073709551552 * ln (1 - 21.536 / 64))
   \<and> hll_cardinality [0x14, 0x24, 0x00, 0x55, 0x55, 0x55, 0x55]
       = Inr (Some (18446744073709551552 * ln (1 - 21.536 / 64)))
   \<and> 18446744073709551552 * ln (1 - 21.536 / 64) < (- 1 :: real)
   \<and> 0 < - (2 ^ 6) * ln (1 - 21.536 / 64 :: real)"
proof -
  have "hll_cardinality [0x14, 0x24, 0x00, 0x55, 0x55, 0x55, 0x55]
       = Inr (Some (18446744073709551552 * ln (1 - 21.536 / 64)))"
    using large_range_value_negative by (simp add: hll_cardinality_def multiset_unpack_dense_ones multiset_card_dense_ones)
  with multiset_add_all_dense_ones multiset_unpack_dense_ones multiset_card_dense_ones large_range_value_negative large_range_formula_positive show ?thesis by blast
qed


end
